theory Spec2Isabelle
  imports Main
begin

section \<open>Data model of \<open>PatientDischarge.tsx\<close>\<close>

text \<open>
  The two row interfaces of the component. Both carry \<open>mrn\<close> and \<open>patient_name\<close>;
  the fields of \<open>Consultation\<close> that share a name with a field of \<open>Patient\<close> are
  prefixed with \<open>c_\<close>. A string is the bytes of its UTF-8 encoding.
\<close>

record Patient =
  mrn :: string
  patient_name :: string
  admission_date :: string
  admission_time :: string
  patient_status :: string
  specialty :: string

record Consultation =
  c_mrn :: string
  c_patient_name :: string
  created_at :: string
  status :: string
  consultation_specialty :: string
  requesting_department :: string

text \<open>
  The union \<open>Patient | Consultation\<close>. The source tells the two apart by
  \<open>'specialty' in record\<close>; of the two interfaces only \<open>Patient\<close> has that field, so
  the test is the constructor.
\<close>

datatype ActiveRecord = Admission Patient | Consult Consultation

fun record_mrn :: "ActiveRecord \<Rightarrow> string" where
  "record_mrn (Admission p) = mrn p"
| "record_mrn (Consult c) = c_mrn c"

fun record_patient_name :: "ActiveRecord \<Rightarrow> string" where
  "record_patient_name (Admission p) = patient_name p"
| "record_patient_name (Consult c) = c_patient_name c"

record DischargedToday =
  admissions :: nat
  consultations :: nat

record DischargeStats =
  stat_specialty :: string
  dischargedToday :: DischargedToday

definition specialtiesList :: "string list" where
  "specialtiesList =
    [''General Internal Medicine'',
     ''Respiratory Medicine'',
     ''Infectious Diseases'',
     ''Neurology'',
     ''Gastroenterology'',
     ''Rheumatology'',
     ''Hematology'',
     ''Thrombosis Medicine'',
     ''Immunology & Allergy'',
     ''Safety Admission'',
     ''Medical Consultations'']"

text \<open>The \<open>useState\<close> cells of the component.\<close>

record State =
  records :: "ActiveRecord list"
  selectedRecord :: "ActiveRecord option"
  dischargeDate :: string
  dischargeTime :: string
  dischargeNote :: string
  searchTerm :: string
  selectedSpecialty :: string
  dischargeStats :: "DischargeStats list"
  loading :: bool

section \<open>Time\<close>

text \<open>
  An instant (\<open>new Date()\<close>) is its number of milliseconds since the epoch.
  \<open>toISOString()\<close> renders an instant in UTC, so the part of it before the \<open>T\<close> is the
  UTC calendar date; the model keeps that date as its day number since the epoch,
  which the text \<open>YYYY-MM-DD\<close> determines and is determined by.
\<close>

type_synonym instant = int

definition ms_per_day :: int where
  "ms_per_day = 86400000"

definition iso_date :: "instant \<Rightarrow> int" where
  "iso_date t = t div ms_per_day"

text \<open>
  A date-time literal without zone designator, as the template
  \<open>`${today}T00:00:00`\<close> builds it: the date and the clock time written after \<open>T\<close>.
\<close>

record StampLiteral =
  lit_date :: int
  lit_hh :: nat
  lit_mm :: nat
  lit_ss :: nat

section \<open>The data-store client and the notification sink\<close>

text \<open>
  A column value is a text or a timestamp. A patch is the object literal passed to
  \<open>update\<close>, its fields in the order written.
\<close>

datatype FieldValue = Text string | Stamp instant

record UpdateCall =
  table :: string
  patch :: "(string \<times> FieldValue) list"
  eq_column :: string
  eq_value :: string

record CountQuery =
  from_table :: string
  eqs :: "(string \<times> string) list"
  gte :: "string \<times> StampLiteral"
  lte :: "string \<times> StampLiteral"

text \<open>
  What an \<open>await\<close> yields: the value the promise resolves to, or the cause it rejects
  with (which the \<open>await\<close> throws). The client resolves an update to \<open>{ error }\<close> and a
  head count to \<open>{ count, error }\<close>, either of which may be null.
\<close>

datatype 'a awaited = Resolved 'a | Rejected string

record CountResponse =
  count :: "nat option"
  count_error :: "string option"

text \<open>
  The environment of one run: the clock reading and the answers of the remote store.
\<close>

record Env =
  now :: instant
  update_reply :: "UpdateCall \<Rightarrow> string option awaited"
  count_reply :: "CountQuery \<Rightarrow> CountResponse awaited"

text \<open>
  What a run does to the outside, in order: toasts, console output (label and cause)
  and the updates sent to the store.
\<close>

datatype Effect =
    ToastError string
  | ToastSuccess string
  | ConsoleError string string
  | RemoteUpdate UpdateCall

section \<open>\<open>fetchDischargeStats\<close>\<close>

definition day_start :: "int \<Rightarrow> StampLiteral" where
  "day_start today = \<lparr>lit_date = today, lit_hh = 0, lit_mm = 0, lit_ss = 0\<rparr>"

definition day_end :: "int \<Rightarrow> StampLiteral" where
  "day_end today = \<lparr>lit_date = today, lit_hh = 23, lit_mm = 59, lit_ss = 59\<rparr>"

definition patients_query :: "int \<Rightarrow> string \<Rightarrow> CountQuery" where
  "patients_query today sp =
    \<lparr>from_table = ''patients'',
     eqs = [(''specialty'', sp), (''patient_status'', ''Discharged'')],
     gte = (''updated_at'', day_start today),
     lte = (''updated_at'', day_end today)\<rparr>"

definition consultations_query :: "int \<Rightarrow> string \<Rightarrow> CountQuery" where
  "consultations_query today sp =
    \<lparr>from_table = ''consultations'',
     eqs = [(''consultation_specialty'', sp), (''status'', ''Completed'')],
     gte = (''updated_at'', day_start today),
     lte = (''updated_at'', day_end today)\<rparr>"

text \<open>\<open>count || 0\<close>: null and 0 both give 0.\<close>

definition or_zero :: "nat option \<Rightarrow> nat" where
  "or_zero c = (case c of None \<Rightarrow> 0 | Some n \<Rightarrow> n)"

text \<open>
  The callback mapped over \<open>specialtiesList\<close>. Both counts are awaited before either
  error is looked at; a rejected \<open>await\<close> throws at once. \<open>Inl\<close> is the cause thrown.
\<close>

definition specialty_stats :: "Env \<Rightarrow> int \<Rightarrow> string \<Rightarrow> string + DischargeStats" where
  "specialty_stats env today sp =
    (case count_reply env (patients_query today sp) of
       Rejected e \<Rightarrow> Inl e
     | Resolved pr \<Rightarrow>
        (case count_reply env (consultations_query today sp) of
           Rejected e \<Rightarrow> Inl e
         | Resolved cr \<Rightarrow>
            (case count_error pr of
               Some e \<Rightarrow> Inl e
             | None \<Rightarrow>
                (case count_error cr of
                   Some e \<Rightarrow> Inl e
                 | None \<Rightarrow>
                    Inr \<lparr>stat_specialty = sp,
                         dischargedToday =
                           \<lparr>admissions = or_zero (count pr),
                            consultations = or_zero (count cr)\<rparr>\<rparr>))))"

text \<open>
  \<open>Promise.all\<close>: the results in the order of the promises, or a rejection.
  The engine rejects with the rejection that happens first; the order in time is not
  modelled, and when several reject the model reports the first in list order. Only
  the cause that a failing run logs depends on it.
\<close>

fun promise_all :: "(string + 'a) list \<Rightarrow> string + 'a list" where
  "promise_all [] = Inr []"
| "promise_all (Inl e # ps) = Inl e"
| "promise_all (Inr x # ps) =
     (case promise_all ps of Inl e \<Rightarrow> Inl e | Inr xs \<Rightarrow> Inr (x # xs))"

definition has_discharges :: "DischargeStats \<Rightarrow> bool" where
  "has_discharges stat \<longleftrightarrow>
     admissions (dischargedToday stat) > 0 \<or> consultations (dischargedToday stat) > 0"

definition fetchDischargeStats :: "Env \<Rightarrow> State \<Rightarrow> State \<times> Effect list" where
  "fetchDischargeStats env st =
    (let today = iso_date (now env) in
     case promise_all (map (specialty_stats env today) specialtiesList) of
       Inr stats \<Rightarrow> (st\<lparr>dischargeStats := filter has_discharges stats\<rparr>, [])
     | Inl e \<Rightarrow>
         (st, [ConsoleError ''Error fetching discharge stats:'' e,
               ToastError ''Failed to fetch discharge statistics'']))"

section \<open>\<open>handleDischarge\<close>\<close>

definition patients_update :: "Env \<Rightarrow> State \<Rightarrow> Patient \<Rightarrow> UpdateCall" where
  "patients_update env st p =
    \<lparr>table = ''patients'',
     patch = [(''patient_status'', Text ''Discharged''),
              (''discharge_date'', Text (dischargeDate st)),
              (''discharge_time'', Text (dischargeTime st)),
              (''discharge_note'', Text (dischargeNote st)),
              (''updated_at'', Stamp (now env))],
     eq_column = ''mrn'',
     eq_value = mrn p\<rparr>"

definition consultations_update :: "Env \<Rightarrow> Consultation \<Rightarrow> UpdateCall" where
  "consultations_update env c =
    \<lparr>table = ''consultations'',
     patch = [(''status'', Text ''Completed''),
              (''updated_at'', Stamp (now env))],
     eq_column = ''mrn'',
     eq_value = c_mrn c\<rparr>"

fun discharge_update :: "Env \<Rightarrow> State \<Rightarrow> ActiveRecord \<Rightarrow> UpdateCall" where
  "discharge_update env st (Admission p) = patients_update env st p"
| "discharge_update env st (Consult c) = consultations_update env c"

definition validation_failure :: "State \<Rightarrow> State \<times> Effect list" where
  "validation_failure st = (st, [ToastError ''Please fill in all required fields''])"

definition discharge_failure :: "State \<Rightarrow> UpdateCall \<Rightarrow> string \<Rightarrow> State \<times> Effect list" where
  "discharge_failure st call e =
    (st, [RemoteUpdate call, ConsoleError ''Error:'' e,
          ToastError ''Failed to discharge record''])"

definition after_discharge :: "State \<Rightarrow> ActiveRecord \<Rightarrow> State" where
  "after_discharge st sel =
    st\<lparr>records := filter (\<lambda>record. record_mrn record \<noteq> record_mrn sel) (records st),
       selectedRecord := None,
       dischargeDate := [],
       dischargeTime := [],
       dischargeNote := []\<rparr>"

text \<open>
  The submit handler. \<open>env\<close> is the environment of the update; \<open>env'\<close> is the
  environment the statistics run of line 170 finds (a later clock reading, the store
  after the write). The empty string and null are the falsy values of the guard.
\<close>

definition handleDischarge :: "Env \<Rightarrow> Env \<Rightarrow> State \<Rightarrow> State \<times> Effect list" where
  "handleDischarge env env' st =
    (case selectedRecord st of
       None \<Rightarrow> validation_failure st
     | Some sel \<Rightarrow>
        if dischargeDate st = [] \<or> dischargeTime st = [] then validation_failure st
        else
          (let call = discharge_update env st sel in
           case update_reply env call of
             Rejected e \<Rightarrow> discharge_failure st call e
           | Resolved (Some e) \<Rightarrow> discharge_failure st call e
           | Resolved None \<Rightarrow>
              (case fetchDischargeStats env' (after_discharge st sel) of
                 (st', effs) \<Rightarrow>
                   (st', [RemoteUpdate call,
                          ToastSuccess ''Record discharged successfully''] @ effs))))"

section \<open>\<open>filteredRecords\<close>\<close>

text \<open>
  A string is held as the bytes of its UTF-8 encoding, so that equality and
  \<open>includes\<close> on bytes are equality and \<open>includes\<close> on the text.

  \<open>String.prototype.toLowerCase\<close> is the engine's, not the component's: it maps
  the code points of the string by the lower-case mappings of the Unicode Character
  Database that depend on no language. These are the single mappings of
  \<open>UnicodeData.txt\<close>, the one unconditional entry of \<open>SpecialCasing.txt\<close> (U+0130
  becomes U+0069 U+0307) and the final-sigma rule (U+03A3 becomes U+03C2 after a
  cased letter and not before one, characters that case ignores being skipped, and
  U+03C3 otherwise). The tables below are those of Unicode 14.0, as runs of code
  points.
\<close>

definition is_continuation :: "nat \<Rightarrow> bool" where
  "is_continuation b \<longleftrightarrow> 128 \<le> b \<and> b < 192"

fun utf8_decode :: "nat list \<Rightarrow> nat list option" where
  "utf8_decode [] = Some []"
| "utf8_decode (b # bs) =
    (if b < 128 then map_option ((#) b) (utf8_decode bs)
     else if b < 192 then None
     else if b < 224 then
       (case bs of
          b1 # r \<Rightarrow>
            if is_continuation b1
            then map_option ((#) ((b - 192) * 64 + (b1 - 128))) (utf8_decode r)
            else None
        | _ \<Rightarrow> None)
     else if b < 240 then
       (case bs of
          b1 # b2 # r \<Rightarrow>
            if is_continuation b1 \<and> is_continuation b2
            then map_option ((#) ((b - 224) * 4096 + (b1 - 128) * 64 + (b2 - 128)))
                   (utf8_decode r)
            else None
        | _ \<Rightarrow> None)
     else if b < 248 then
       (case bs of
          b1 # b2 # b3 # r \<Rightarrow>
            if is_continuation b1 \<and> is_continuation b2 \<and> is_continuation b3
            then map_option
                   ((#) ((b - 240) * 262144 + (b1 - 128) * 4096 + (b2 - 128) * 64 + (b3 - 128)))
                   (utf8_decode r)
            else None
        | _ \<Rightarrow> None)
     else None)"

definition utf8_encode_cp :: "nat \<Rightarrow> nat list" where
  "utf8_encode_cp c =
    (if c < 128 then [c]
     else if c < 2048 then [192 + c div 64, 128 + c mod 64]
     else if c < 65536 then [224 + c div 4096, 128 + c div 64 mod 64, 128 + c mod 64]
     else [240 + c div 262144, 128 + c div 4096 mod 64, 128 + c div 64 mod 64,
           128 + c mod 64])"

definition utf8_encode :: "nat list \<Rightarrow> nat list" where
  "utf8_encode cs = concat (map utf8_encode_cp cs)"

text \<open>
  The code points of a string; \<open>None\<close> for bytes that are the encoding of no
  sequence of code points.
\<close>

definition code_points :: "string \<Rightarrow> nat list option" where
  "code_points s =
    (case utf8_decode (map of_char s) of
       None \<Rightarrow> None
     | Some cs \<Rightarrow> if utf8_encode cs = map of_char s then Some cs else None)"

text \<open>
  Runs \<open>(lo, hi, step, target)\<close>: the code points \<open>lo\<close>, \<open>lo + step\<close>, ...
  up to \<open>hi\<close> have the lower-case forms \<open>target\<close>, \<open>target + step\<close>, ...
\<close>

definition lower_runs :: "(nat \<times> nat \<times> nat \<times> nat) list" where
  "lower_runs =
    [(0x00C0, 0x00D6, 1, 0x00E0), (0x00D8, 0x00DE, 1, 0x00F8), (0x0100, 0x012E, 2, 0x0101),
     (0x0132, 0x0136, 2, 0x0133), (0x0139, 0x0147, 2, 0x013A), (0x014A, 0x0176, 2, 0x014B),
     (0x0178, 0x0178, 1, 0x00FF), (0x0179, 0x017D, 2, 0x017A), (0x0181, 0x0181, 1, 0x0253),
     (0x0182, 0x0184, 2, 0x0183), (0x0186, 0x0186, 1, 0x0254), (0x0187, 0x0187, 1, 0x0188),
     (0x0189, 0x018A, 1, 0x0256), (0x018B, 0x018B, 1, 0x018C), (0x018E, 0x018E, 1, 0x01DD),
     (0x018F, 0x018F, 1, 0x0259), (0x0190, 0x0190, 1, 0x025B), (0x0191, 0x0191, 1, 0x0192),
     (0x0193, 0x0193, 1, 0x0260), (0x0194, 0x0194, 1, 0x0263), (0x0196, 0x0196, 1, 0x0269),
     (0x0197, 0x0197, 1, 0x0268), (0x0198, 0x0198, 1, 0x0199), (0x019C, 0x019C, 1, 0x026F),
     (0x019D, 0x019D, 1, 0x0272), (0x019F, 0x019F, 1, 0x0275), (0x01A0, 0x01A4, 2, 0x01A1),
     (0x01A6, 0x01A6, 1, 0x0280), (0x01A7, 0x01A7, 1, 0x01A8), (0x01A9, 0x01A9, 1, 0x0283),
     (0x01AC, 0x01AC, 1, 0x01AD), (0x01AE, 0x01AE, 1, 0x0288), (0x01AF, 0x01AF, 1, 0x01B0),
     (0x01B1, 0x01B2, 1, 0x028A), (0x01B3, 0x01B5, 2, 0x01B4), (0x01B7, 0x01B7, 1, 0x0292),
     (0x01B8, 0x01B8, 1, 0x01B9), (0x01BC, 0x01BC, 1, 0x01BD), (0x01C4, 0x01C4, 1, 0x01C6),
     (0x01C5, 0x01C5, 1, 0x01C6), (0x01C7, 0x01C7, 1, 0x01C9), (0x01C8, 0x01C8, 1, 0x01C9),
     (0x01CA, 0x01CA, 1, 0x01CC), (0x01CB, 0x01DB, 2, 0x01CC), (0x01DE, 0x01EE, 2, 0x01DF),
     (0x01F1, 0x01F1, 1, 0x01F3), (0x01F2, 0x01F4, 2, 0x01F3), (0x01F6, 0x01F6, 1, 0x0195),
     (0x01F7, 0x01F7, 1, 0x01BF), (0x01F8, 0x021E, 2, 0x01F9), (0x0220, 0x0220, 1, 0x019E),
     (0x0222, 0x0232, 2, 0x0223), (0x023A, 0x023A, 1, 0x2C65), (0x023B, 0x023B, 1, 0x023C),
     (0x023D, 0x023D, 1, 0x019A), (0x023E, 0x023E, 1, 0x2C66), (0x0241, 0x0241, 1, 0x0242),
     (0x0243, 0x0243, 1, 0x0180), (0x0244, 0x0244, 1, 0x0289), (0x0245, 0x0245, 1, 0x028C),
     (0x0246, 0x024E, 2, 0x0247), (0x0370, 0x0372, 2, 0x0371), (0x0376, 0x0376, 1, 0x0377),
     (0x037F, 0x037F, 1, 0x03F3), (0x0386, 0x0386, 1, 0x03AC), (0x0388, 0x038A, 1, 0x03AD),
     (0x038C, 0x038C, 1, 0x03CC), (0x038E, 0x038F, 1, 0x03CD), (0x0391, 0x03A1, 1, 0x03B1),
     (0x03A3, 0x03AB, 1, 0x03C3), (0x03CF, 0x03CF, 1, 0x03D7), (0x03D8, 0x03EE, 2, 0x03D9),
     (0x03F4, 0x03F4, 1, 0x03B8), (0x03F7, 0x03F7, 1, 0x03F8), (0x03F9, 0x03F9, 1, 0x03F2),
     (0x03FA, 0x03FA, 1, 0x03FB), (0x03FD, 0x03FF, 1, 0x037B), (0x0400, 0x040F, 1, 0x0450),
     (0x0410, 0x042F, 1, 0x0430), (0x0460, 0x0480, 2, 0x0461), (0x048A, 0x04BE, 2, 0x048B),
     (0x04C0, 0x04C0, 1, 0x04CF), (0x04C1, 0x04CD, 2, 0x04C2), (0x04D0, 0x052E, 2, 0x04D1),
     (0x0531, 0x0556, 1, 0x0561), (0x10A0, 0x10C5, 1, 0x2D00), (0x10C7, 0x10C7, 1, 0x2D27),
     (0x10CD, 0x10CD, 1, 0x2D2D), (0x13A0, 0x13EF, 1, 0xAB70), (0x13F0, 0x13F5, 1, 0x13F8),
     (0x1C90, 0x1CBA, 1, 0x10D0), (0x1CBD, 0x1CBF, 1, 0x10FD), (0x1E00, 0x1E94, 2, 0x1E01),
     (0x1E9E, 0x1E9E, 1, 0x00DF), (0x1EA0, 0x1EFE, 2, 0x1EA1), (0x1F08, 0x1F0F, 1, 0x1F00),
     (0x1F18, 0x1F1D, 1, 0x1F10), (0x1F28, 0x1F2F, 1, 0x1F20), (0x1F38, 0x1F3F, 1, 0x1F30),
     (0x1F48, 0x1F4D, 1, 0x1F40), (0x1F59, 0x1F5F, 2, 0x1F51), (0x1F68, 0x1F6F, 1, 0x1F60),
     (0x1F88, 0x1F8F, 1, 0x1F80), (0x1F98, 0x1F9F, 1, 0x1F90), (0x1FA8, 0x1FAF, 1, 0x1FA0),
     (0x1FB8, 0x1FB9, 1, 0x1FB0), (0x1FBA, 0x1FBB, 1, 0x1F70), (0x1FBC, 0x1FBC, 1, 0x1FB3),
     (0x1FC8, 0x1FCB, 1, 0x1F72), (0x1FCC, 0x1FCC, 1, 0x1FC3), (0x1FD8, 0x1FD9, 1, 0x1FD0),
     (0x1FDA, 0x1FDB, 1, 0x1F76), (0x1FE8, 0x1FE9, 1, 0x1FE0), (0x1FEA, 0x1FEB, 1, 0x1F7A),
     (0x1FEC, 0x1FEC, 1, 0x1FE5), (0x1FF8, 0x1FF9, 1, 0x1F78), (0x1FFA, 0x1FFB, 1, 0x1F7C),
     (0x1FFC, 0x1FFC, 1, 0x1FF3), (0x2126, 0x2126, 1, 0x03C9), (0x212A, 0x212A, 1, 0x006B),
     (0x212B, 0x212B, 1, 0x00E5), (0x2132, 0x2132, 1, 0x214E), (0x2160, 0x216F, 1, 0x2170),
     (0x2183, 0x2183, 1, 0x2184), (0x24B6, 0x24CF, 1, 0x24D0), (0x2C00, 0x2C2F, 1, 0x2C30),
     (0x2C60, 0x2C60, 1, 0x2C61), (0x2C62, 0x2C62, 1, 0x026B), (0x2C63, 0x2C63, 1, 0x1D7D),
     (0x2C64, 0x2C64, 1, 0x027D), (0x2C67, 0x2C6B, 2, 0x2C68), (0x2C6D, 0x2C6D, 1, 0x0251),
     (0x2C6E, 0x2C6E, 1, 0x0271), (0x2C6F, 0x2C6F, 1, 0x0250), (0x2C70, 0x2C70, 1, 0x0252),
     (0x2C72, 0x2C72, 1, 0x2C73), (0x2C75, 0x2C75, 1, 0x2C76), (0x2C7E, 0x2C7F, 1, 0x023F),
     (0x2C80, 0x2CE2, 2, 0x2C81), (0x2CEB, 0x2CED, 2, 0x2CEC), (0x2CF2, 0x2CF2, 1, 0x2CF3),
     (0xA640, 0xA66C, 2, 0xA641), (0xA680, 0xA69A, 2, 0xA681), (0xA722, 0xA72E, 2, 0xA723),
     (0xA732, 0xA76E, 2, 0xA733), (0xA779, 0xA77B, 2, 0xA77A), (0xA77D, 0xA77D, 1, 0x1D79),
     (0xA77E, 0xA786, 2, 0xA77F), (0xA78B, 0xA78B, 1, 0xA78C), (0xA78D, 0xA78D, 1, 0x0265),
     (0xA790, 0xA792, 2, 0xA791), (0xA796, 0xA7A8, 2, 0xA797), (0xA7AA, 0xA7AA, 1, 0x0266),
     (0xA7AB, 0xA7AB, 1, 0x025C), (0xA7AC, 0xA7AC, 1, 0x0261), (0xA7AD, 0xA7AD, 1, 0x026C),
     (0xA7AE, 0xA7AE, 1, 0x026A), (0xA7B0, 0xA7B0, 1, 0x029E), (0xA7B1, 0xA7B1, 1, 0x0287),
     (0xA7B2, 0xA7B2, 1, 0x029D), (0xA7B3, 0xA7B3, 1, 0xAB53), (0xA7B4, 0xA7C2, 2, 0xA7B5),
     (0xA7C4, 0xA7C4, 1, 0xA794), (0xA7C5, 0xA7C5, 1, 0x0282), (0xA7C6, 0xA7C6, 1, 0x1D8E),
     (0xA7C7, 0xA7C9, 2, 0xA7C8), (0xA7D0, 0xA7D0, 1, 0xA7D1), (0xA7D6, 0xA7D8, 2, 0xA7D7),
     (0xA7F5, 0xA7F5, 1, 0xA7F6), (0xFF21, 0xFF3A, 1, 0xFF41),
     (0x10400, 0x10427, 1, 0x10428), (0x104B0, 0x104D3, 1, 0x104D8),
     (0x10570, 0x1057A, 1, 0x10597), (0x1057C, 0x1058A, 1, 0x105A3),
     (0x1058C, 0x10592, 1, 0x105B3), (0x10594, 0x10595, 1, 0x105BB),
     (0x10C80, 0x10CB2, 1, 0x10CC0), (0x118A0, 0x118BF, 1, 0x118C0),
     (0x16E40, 0x16E5F, 1, 0x16E60), (0x1E900, 0x1E921, 1, 0x1E922)]"

fun lookup_run :: "(nat \<times> nat \<times> nat \<times> nat) list \<Rightarrow> nat \<Rightarrow> nat" where
  "lookup_run [] c = c"
| "lookup_run ((lo, hi, step, target) # runs) c =
    (if lo \<le> c \<and> c \<le> hi \<and> (c - lo) mod step = 0 then target + (c - lo)
     else lookup_run runs c)"

definition fold_ascii :: "nat \<Rightarrow> nat" where
  "fold_ascii c = (if 65 \<le> c \<and> c \<le> 90 then c + 32 else c)"

definition lower_cp :: "nat \<Rightarrow> nat list" where
  "lower_cp c =
    (if c < 128 then [fold_ascii c]
     else if c = 0x0130 then [0x0069, 0x0307]
     else [lookup_run lower_runs c])"

text \<open>The code points with the properties \<open>Cased\<close> and \<open>Case_Ignorable\<close>, as ranges.\<close>

definition cased_ranges :: "(nat \<times> nat) list" where
  "cased_ranges =
    [(0x0041, 0x005A), (0x0061, 0x007A), (0x00AA, 0x00AA), (0x00B5, 0x00B5),
     (0x00BA, 0x00BA), (0x00C0, 0x00D6), (0x00D8, 0x00F6), (0x00F8, 0x01BA),
     (0x01BC, 0x01BF), (0x01C4, 0x0293), (0x0295, 0x02B8), (0x02C0, 0x02C1),
     (0x02E0, 0x02E4), (0x0345, 0x0345), (0x0370, 0x0373), (0x0376, 0x0377),
     (0x037A, 0x037D), (0x037F, 0x037F), (0x0386, 0x0386), (0x0388, 0x038A),
     (0x038C, 0x038C), (0x038E, 0x03A1), (0x03A3, 0x03F5), (0x03F7, 0x0481),
     (0x048A, 0x052F), (0x0531, 0x0556), (0x0560, 0x0588), (0x10A0, 0x10C5),
     (0x10C7, 0x10C7), (0x10CD, 0x10CD), (0x10D0, 0x10FA), (0x10FD, 0x10FF),
     (0x13A0, 0x13F5), (0x13F8, 0x13FD), (0x1C80, 0x1C88), (0x1C90, 0x1CBA),
     (0x1CBD, 0x1CBF), (0x1D00, 0x1DBF), (0x1E00, 0x1F15), (0x1F18, 0x1F1D),
     (0x1F20, 0x1F45), (0x1F48, 0x1F4D), (0x1F50, 0x1F57), (0x1F59, 0x1F59),
     (0x1F5B, 0x1F5B), (0x1F5D, 0x1F5D), (0x1F5F, 0x1F7D), (0x1F80, 0x1FB4),
     (0x1FB6, 0x1FBC), (0x1FBE, 0x1FBE), (0x1FC2, 0x1FC4), (0x1FC6, 0x1FCC),
     (0x1FD0, 0x1FD3), (0x1FD6, 0x1FDB), (0x1FE0, 0x1FEC), (0x1FF2, 0x1FF4),
     (0x1FF6, 0x1FFC), (0x2071, 0x2071), (0x207F, 0x207F), (0x2090, 0x209C),
     (0x2102, 0x2102), (0x2107, 0x2107), (0x210A, 0x2113), (0x2115, 0x2115),
     (0x2119, 0x211D), (0x2124, 0x2124), (0x2126, 0x2126), (0x2128, 0x2128),
     (0x212A, 0x212D), (0x212F, 0x2134), (0x2139, 0x2139), (0x213C, 0x213F),
     (0x2145, 0x2149), (0x214E, 0x214E), (0x2160, 0x217F), (0x2183, 0x2184),
     (0x24B6, 0x24E9), (0x2C00, 0x2CE4), (0x2CEB, 0x2CEE), (0x2CF2, 0x2CF3),
     (0x2D00, 0x2D25), (0x2D27, 0x2D27), (0x2D2D, 0x2D2D), (0xA640, 0xA66D),
     (0xA680, 0xA69D), (0xA722, 0xA787), (0xA78B, 0xA78E), (0xA790, 0xA7CA),
     (0xA7D0, 0xA7D1), (0xA7D3, 0xA7D3), (0xA7D5, 0xA7D9), (0xA7F5, 0xA7F6),
     (0xA7F8, 0xA7FA), (0xAB30, 0xAB5A), (0xAB5C, 0xAB68), (0xAB70, 0xABBF),
     (0xFB00, 0xFB06), (0xFB13, 0xFB17), (0xFF21, 0xFF3A), (0xFF41, 0xFF5A),
     (0x10400, 0x1044F), (0x104B0, 0x104D3), (0x104D8, 0x104FB), (0x10570, 0x1057A),
     (0x1057C, 0x1058A), (0x1058C, 0x10592), (0x10594, 0x10595), (0x10597, 0x105A1),
     (0x105A3, 0x105B1), (0x105B3, 0x105B9), (0x105BB, 0x105BC), (0x10780, 0x10780),
     (0x10783, 0x10785), (0x10787, 0x107B0), (0x107B2, 0x107BA), (0x10C80, 0x10CB2),
     (0x10CC0, 0x10CF2), (0x118A0, 0x118DF), (0x16E40, 0x16E7F), (0x1D400, 0x1D454),
     (0x1D456, 0x1D49C), (0x1D49E, 0x1D49F), (0x1D4A2, 0x1D4A2), (0x1D4A5, 0x1D4A6),
     (0x1D4A9, 0x1D4AC), (0x1D4AE, 0x1D4B9), (0x1D4BB, 0x1D4BB), (0x1D4BD, 0x1D4C3),
     (0x1D4C5, 0x1D505), (0x1D507, 0x1D50A), (0x1D50D, 0x1D514), (0x1D516, 0x1D51C),
     (0x1D51E, 0x1D539), (0x1D53B, 0x1D53E), (0x1D540, 0x1D544), (0x1D546, 0x1D546),
     (0x1D54A, 0x1D550), (0x1D552, 0x1D6A5), (0x1D6A8, 0x1D6C0), (0x1D6C2, 0x1D6DA),
     (0x1D6DC, 0x1D6FA), (0x1D6FC, 0x1D714), (0x1D716, 0x1D734), (0x1D736, 0x1D74E),
     (0x1D750, 0x1D76E), (0x1D770, 0x1D788), (0x1D78A, 0x1D7A8), (0x1D7AA, 0x1D7C2),
     (0x1D7C4, 0x1D7CB), (0x1DF00, 0x1DF09), (0x1DF0B, 0x1DF1E), (0x1E900, 0x1E943),
     (0x1F130, 0x1F149), (0x1F150, 0x1F169), (0x1F170, 0x1F189)]"

definition case_ignorable_ranges :: "(nat \<times> nat) list" where
  "case_ignorable_ranges =
    [(0x0027, 0x0027), (0x002E, 0x002E), (0x003A, 0x003A), (0x005E, 0x005E),
     (0x0060, 0x0060), (0x00A8, 0x00A8), (0x00AD, 0x00AD), (0x00AF, 0x00AF),
     (0x00B4, 0x00B4), (0x00B7, 0x00B8), (0x02B0, 0x036F), (0x0374, 0x0375),
     (0x037A, 0x037A), (0x0384, 0x0385), (0x0387, 0x0387), (0x0483, 0x0489),
     (0x0559, 0x0559), (0x055F, 0x055F), (0x0591, 0x05BD), (0x05BF, 0x05BF),
     (0x05C1, 0x05C2), (0x05C4, 0x05C5), (0x05C7, 0x05C7), (0x05F4, 0x05F4),
     (0x0600, 0x0605), (0x0610, 0x061A), (0x061C, 0x061C), (0x0640, 0x0640),
     (0x064B, 0x065F), (0x0670, 0x0670), (0x06D6, 0x06DD), (0x06DF, 0x06E8),
     (0x06EA, 0x06ED), (0x070F, 0x070F), (0x0711, 0x0711), (0x0730, 0x074A),
     (0x07A6, 0x07B0), (0x07EB, 0x07F5), (0x07FA, 0x07FA), (0x07FD, 0x07FD),
     (0x0816, 0x082D), (0x0859, 0x085B), (0x0888, 0x0888), (0x0890, 0x0891),
     (0x0898, 0x089F), (0x08C9, 0x0902), (0x093A, 0x093A), (0x093C, 0x093C),
     (0x0941, 0x0948), (0x094D, 0x094D), (0x0951, 0x0957), (0x0962, 0x0963),
     (0x0971, 0x0971), (0x0981, 0x0981), (0x09BC, 0x09BC), (0x09C1, 0x09C4),
     (0x09CD, 0x09CD), (0x09E2, 0x09E3), (0x09FE, 0x09FE), (0x0A01, 0x0A02),
     (0x0A3C, 0x0A3C), (0x0A41, 0x0A42), (0x0A47, 0x0A48), (0x0A4B, 0x0A4D),
     (0x0A51, 0x0A51), (0x0A70, 0x0A71), (0x0A75, 0x0A75), (0x0A81, 0x0A82),
     (0x0ABC, 0x0ABC), (0x0AC1, 0x0AC5), (0x0AC7, 0x0AC8), (0x0ACD, 0x0ACD),
     (0x0AE2, 0x0AE3), (0x0AFA, 0x0AFF), (0x0B01, 0x0B01), (0x0B3C, 0x0B3C),
     (0x0B3F, 0x0B3F), (0x0B41, 0x0B44), (0x0B4D, 0x0B4D), (0x0B55, 0x0B56),
     (0x0B62, 0x0B63), (0x0B82, 0x0B82), (0x0BC0, 0x0BC0), (0x0BCD, 0x0BCD),
     (0x0C00, 0x0C00), (0x0C04, 0x0C04), (0x0C3C, 0x0C3C), (0x0C3E, 0x0C40),
     (0x0C46, 0x0C48), (0x0C4A, 0x0C4D), (0x0C55, 0x0C56), (0x0C62, 0x0C63),
     (0x0C81, 0x0C81), (0x0CBC, 0x0CBC), (0x0CBF, 0x0CBF), (0x0CC6, 0x0CC6),
     (0x0CCC, 0x0CCD), (0x0CE2, 0x0CE3), (0x0D00, 0x0D01), (0x0D3B, 0x0D3C),
     (0x0D41, 0x0D44), (0x0D4D, 0x0D4D), (0x0D62, 0x0D63), (0x0D81, 0x0D81),
     (0x0DCA, 0x0DCA), (0x0DD2, 0x0DD4), (0x0DD6, 0x0DD6), (0x0E31, 0x0E31),
     (0x0E34, 0x0E3A), (0x0E46, 0x0E4E), (0x0EB1, 0x0EB1), (0x0EB4, 0x0EBC),
     (0x0EC6, 0x0EC6), (0x0EC8, 0x0ECD), (0x0F18, 0x0F19), (0x0F35, 0x0F35),
     (0x0F37, 0x0F37), (0x0F39, 0x0F39), (0x0F71, 0x0F7E), (0x0F80, 0x0F84),
     (0x0F86, 0x0F87), (0x0F8D, 0x0F97), (0x0F99, 0x0FBC), (0x0FC6, 0x0FC6),
     (0x102D, 0x1030), (0x1032, 0x1037), (0x1039, 0x103A), (0x103D, 0x103E),
     (0x1058, 0x1059), (0x105E, 0x1060), (0x1071, 0x1074), (0x1082, 0x1082),
     (0x1085, 0x1086), (0x108D, 0x108D), (0x109D, 0x109D), (0x10FC, 0x10FC),
     (0x135D, 0x135F), (0x1712, 0x1714), (0x1732, 0x1733), (0x1752, 0x1753),
     (0x1772, 0x1773), (0x17B4, 0x17B5), (0x17B7, 0x17BD), (0x17C6, 0x17C6),
     (0x17C9, 0x17D3), (0x17D7, 0x17D7), (0x17DD, 0x17DD), (0x180B, 0x180F),
     (0x1843, 0x1843), (0x1885, 0x1886), (0x18A9, 0x18A9), (0x1920, 0x1922),
     (0x1927, 0x1928), (0x1932, 0x1932), (0x1939, 0x193B), (0x1A17, 0x1A18),
     (0x1A1B, 0x1A1B), (0x1A56, 0x1A56), (0x1A58, 0x1A5E), (0x1A60, 0x1A60),
     (0x1A62, 0x1A62), (0x1A65, 0x1A6C), (0x1A73, 0x1A7C), (0x1A7F, 0x1A7F),
     (0x1AA7, 0x1AA7), (0x1AB0, 0x1ACE), (0x1B00, 0x1B03), (0x1B34, 0x1B34),
     (0x1B36, 0x1B3A), (0x1B3C, 0x1B3C), (0x1B42, 0x1B42), (0x1B6B, 0x1B73),
     (0x1B80, 0x1B81), (0x1BA2, 0x1BA5), (0x1BA8, 0x1BA9), (0x1BAB, 0x1BAD),
     (0x1BE6, 0x1BE6), (0x1BE8, 0x1BE9), (0x1BED, 0x1BED), (0x1BEF, 0x1BF1),
     (0x1C2C, 0x1C33), (0x1C36, 0x1C37), (0x1C78, 0x1C7D), (0x1CD0, 0x1CD2),
     (0x1CD4, 0x1CE0), (0x1CE2, 0x1CE8), (0x1CED, 0x1CED), (0x1CF4, 0x1CF4),
     (0x1CF8, 0x1CF9), (0x1D2C, 0x1D6A), (0x1D78, 0x1D78), (0x1D9B, 0x1DFF),
     (0x1FBD, 0x1FBD), (0x1FBF, 0x1FC1), (0x1FCD, 0x1FCF), (0x1FDD, 0x1FDF),
     (0x1FED, 0x1FEF), (0x1FFD, 0x1FFE), (0x200B, 0x200F), (0x2018, 0x2019),
     (0x2024, 0x2024), (0x2027, 0x2027), (0x202A, 0x202E), (0x2060, 0x2064),
     (0x2066, 0x206F), (0x2071, 0x2071), (0x207F, 0x207F), (0x2090, 0x209C),
     (0x20D0, 0x20F0), (0x2C7C, 0x2C7D), (0x2CEF, 0x2CF1), (0x2D6F, 0x2D6F),
     (0x2D7F, 0x2D7F), (0x2DE0, 0x2DFF), (0x2E2F, 0x2E2F), (0x3005, 0x3005),
     (0x302A, 0x302D), (0x3031, 0x3035), (0x303B, 0x303B), (0x3099, 0x309E),
     (0x30FC, 0x30FE), (0xA015, 0xA015), (0xA4F8, 0xA4FD), (0xA60C, 0xA60C),
     (0xA66F, 0xA672), (0xA674, 0xA67D), (0xA67F, 0xA67F), (0xA69C, 0xA69F),
     (0xA6F0, 0xA6F1), (0xA700, 0xA721), (0xA770, 0xA770), (0xA788, 0xA78A),
     (0xA7F2, 0xA7F4), (0xA7F8, 0xA7F9), (0xA802, 0xA802), (0xA806, 0xA806),
     (0xA80B, 0xA80B), (0xA825, 0xA826), (0xA82C, 0xA82C), (0xA8C4, 0xA8C5),
     (0xA8E0, 0xA8F1), (0xA8FF, 0xA8FF), (0xA926, 0xA92D), (0xA947, 0xA951),
     (0xA980, 0xA982), (0xA9B3, 0xA9B3), (0xA9B6, 0xA9B9), (0xA9BC, 0xA9BD),
     (0xA9CF, 0xA9CF), (0xA9E5, 0xA9E6), (0xAA29, 0xAA2E), (0xAA31, 0xAA32),
     (0xAA35, 0xAA36), (0xAA43, 0xAA43), (0xAA4C, 0xAA4C), (0xAA70, 0xAA70),
     (0xAA7C, 0xAA7C), (0xAAB0, 0xAAB0), (0xAAB2, 0xAAB4), (0xAAB7, 0xAAB8),
     (0xAABE, 0xAABF), (0xAAC1, 0xAAC1), (0xAADD, 0xAADD), (0xAAEC, 0xAAED),
     (0xAAF3, 0xAAF4), (0xAAF6, 0xAAF6), (0xAB5B, 0xAB5F), (0xAB69, 0xAB6B),
     (0xABE5, 0xABE5), (0xABE8, 0xABE8), (0xABED, 0xABED), (0xFB1E, 0xFB1E),
     (0xFBB2, 0xFBC2), (0xFE00, 0xFE0F), (0xFE13, 0xFE13), (0xFE20, 0xFE2F),
     (0xFE52, 0xFE52), (0xFE55, 0xFE55), (0xFEFF, 0xFEFF), (0xFF07, 0xFF07),
     (0xFF0E, 0xFF0E), (0xFF1A, 0xFF1A), (0xFF3E, 0xFF3E), (0xFF40, 0xFF40),
     (0xFF70, 0xFF70), (0xFF9E, 0xFF9F), (0xFFE3, 0xFFE3), (0xFFF9, 0xFFFB),
     (0x101FD, 0x101FD), (0x102E0, 0x102E0), (0x10376, 0x1037A), (0x10780, 0x10785),
     (0x10787, 0x107B0), (0x107B2, 0x107BA), (0x10A01, 0x10A03), (0x10A05, 0x10A06),
     (0x10A0C, 0x10A0F), (0x10A38, 0x10A3A), (0x10A3F, 0x10A3F), (0x10AE5, 0x10AE6),
     (0x10D24, 0x10D27), (0x10EAB, 0x10EAC), (0x10F46, 0x10F50), (0x10F82, 0x10F85),
     (0x11001, 0x11001), (0x11038, 0x11046), (0x11070, 0x11070), (0x11073, 0x11074),
     (0x1107F, 0x11081), (0x110B3, 0x110B6), (0x110B9, 0x110BA), (0x110BD, 0x110BD),
     (0x110C2, 0x110C2), (0x110CD, 0x110CD), (0x11100, 0x11102), (0x11127, 0x1112B),
     (0x1112D, 0x11134), (0x11173, 0x11173), (0x11180, 0x11181), (0x111B6, 0x111BE),
     (0x111C9, 0x111CC), (0x111CF, 0x111CF), (0x1122F, 0x11231), (0x11234, 0x11234),
     (0x11236, 0x11237), (0x1123E, 0x1123E), (0x112DF, 0x112DF), (0x112E3, 0x112EA),
     (0x11300, 0x11301), (0x1133B, 0x1133C), (0x11340, 0x11340), (0x11366, 0x1136C),
     (0x11370, 0x11374), (0x11438, 0x1143F), (0x11442, 0x11444), (0x11446, 0x11446),
     (0x1145E, 0x1145E), (0x114B3, 0x114B8), (0x114BA, 0x114BA), (0x114BF, 0x114C0),
     (0x114C2, 0x114C3), (0x115B2, 0x115B5), (0x115BC, 0x115BD), (0x115BF, 0x115C0),
     (0x115DC, 0x115DD), (0x11633, 0x1163A), (0x1163D, 0x1163D), (0x1163F, 0x11640),
     (0x116AB, 0x116AB), (0x116AD, 0x116AD), (0x116B0, 0x116B5), (0x116B7, 0x116B7),
     (0x1171D, 0x1171F), (0x11722, 0x11725), (0x11727, 0x1172B), (0x1182F, 0x11837),
     (0x11839, 0x1183A), (0x1193B, 0x1193C), (0x1193E, 0x1193E), (0x11943, 0x11943),
     (0x119D4, 0x119D7), (0x119DA, 0x119DB), (0x119E0, 0x119E0), (0x11A01, 0x11A0A),
     (0x11A33, 0x11A38), (0x11A3B, 0x11A3E), (0x11A47, 0x11A47), (0x11A51, 0x11A56),
     (0x11A59, 0x11A5B), (0x11A8A, 0x11A96), (0x11A98, 0x11A99), (0x11C30, 0x11C36),
     (0x11C38, 0x11C3D), (0x11C3F, 0x11C3F), (0x11C92, 0x11CA7), (0x11CAA, 0x11CB0),
     (0x11CB2, 0x11CB3), (0x11CB5, 0x11CB6), (0x11D31, 0x11D36), (0x11D3A, 0x11D3A),
     (0x11D3C, 0x11D3D), (0x11D3F, 0x11D45), (0x11D47, 0x11D47), (0x11D90, 0x11D91),
     (0x11D95, 0x11D95), (0x11D97, 0x11D97), (0x11EF3, 0x11EF4), (0x13430, 0x13438),
     (0x16AF0, 0x16AF4), (0x16B30, 0x16B36), (0x16B40, 0x16B43), (0x16F4F, 0x16F4F),
     (0x16F8F, 0x16F9F), (0x16FE0, 0x16FE1), (0x16FE3, 0x16FE4), (0x1AFF0, 0x1AFF3),
     (0x1AFF5, 0x1AFFB), (0x1AFFD, 0x1AFFE), (0x1BC9D, 0x1BC9E), (0x1BCA0, 0x1BCA3),
     (0x1CF00, 0x1CF2D), (0x1CF30, 0x1CF46), (0x1D167, 0x1D169), (0x1D173, 0x1D182),
     (0x1D185, 0x1D18B), (0x1D1AA, 0x1D1AD), (0x1D242, 0x1D244), (0x1DA00, 0x1DA36),
     (0x1DA3B, 0x1DA6C), (0x1DA75, 0x1DA75), (0x1DA84, 0x1DA84), (0x1DA9B, 0x1DA9F),
     (0x1DAA1, 0x1DAAF), (0x1E000, 0x1E006), (0x1E008, 0x1E018), (0x1E01B, 0x1E021),
     (0x1E023, 0x1E024), (0x1E026, 0x1E02A), (0x1E130, 0x1E13D), (0x1E2AE, 0x1E2AE),
     (0x1E2EC, 0x1E2EF), (0x1E8D0, 0x1E8D6), (0x1E944, 0x1E94B), (0x1F3FB, 0x1F3FF),
     (0xE0001, 0xE0001), (0xE0020, 0xE007F), (0xE0100, 0xE01EF)]"

definition in_ranges :: "(nat \<times> nat) list \<Rightarrow> nat \<Rightarrow> bool" where
  "in_ranges rs c \<longleftrightarrow> list_ex (\<lambda>(lo, hi). lo \<le> c \<and> c \<le> hi) rs"

text \<open>
  Whether a cased letter comes next, the characters that case ignores being skipped;
  a character with both properties is skipped.
\<close>

fun followed_by_cased :: "nat list \<Rightarrow> bool" where
  "followed_by_cased [] = False"
| "followed_by_cased (c # cs) =
    (if in_ranges case_ignorable_ranges c then followed_by_cased cs
     else in_ranges cased_ranges c)"

text \<open>
  Lower-casing with the code points already passed, nearest first, at hand for the
  final-sigma rule.
\<close>

fun to_lower :: "nat list \<Rightarrow> nat list \<Rightarrow> nat list" where
  "to_lower passed [] = []"
| "to_lower passed (c # cs) =
    (if c = 0x03A3
     then [if followed_by_cased passed \<and> \<not> followed_by_cased cs then 0x03C2 else 0x03C3]
     else lower_cp c)
    @ to_lower (c # passed) cs"

definition toLowerCase :: "string \<Rightarrow> string" where
  "toLowerCase s =
    (case code_points s of
       None \<Rightarrow> s
     | Some cs \<Rightarrow> map char_of (utf8_encode (to_lower [] cs)))"

fun startsWith :: "'a list \<Rightarrow> 'a list \<Rightarrow> bool" where
  "startsWith s [] = True"
| "startsWith [] (y # t) = False"
| "startsWith (x # s) (y # t) = (x = y \<and> startsWith s t)"

text \<open>\<open>s.includes(t)\<close>: \<open>t\<close> occurs in \<open>s\<close> at some position.\<close>

fun str_includes :: "'a list \<Rightarrow> 'a list \<Rightarrow> bool" where
  "str_includes [] t = (t = [])"
| "str_includes (x # s) t = (startsWith (x # s) t \<or> str_includes s t)"

definition matchesName :: "string \<Rightarrow> ActiveRecord \<Rightarrow> bool" where
  "matchesName term record \<longleftrightarrow>
     str_includes (toLowerCase (record_patient_name record)) (toLowerCase term)"

definition matchesSearch :: "string \<Rightarrow> ActiveRecord \<Rightarrow> bool" where
  "matchesSearch term record \<longleftrightarrow>
     matchesName term record \<or> str_includes (record_mrn record) term"

fun matchesSpecialty :: "string \<Rightarrow> ActiveRecord \<Rightarrow> bool" where
  "matchesSpecialty sel (Admission p) \<longleftrightarrow> sel = [] \<or> specialty p = sel"
| "matchesSpecialty sel (Consult c) \<longleftrightarrow> sel = [] \<or> consultation_specialty c = sel"

definition passes :: "State \<Rightarrow> ActiveRecord \<Rightarrow> bool" where
  "passes st record \<longleftrightarrow>
     matchesSearch (searchTerm st) record \<and> matchesSpecialty (selectedSpecialty st) record"

definition filteredRecords :: "State \<Rightarrow> ActiveRecord list" where
  "filteredRecords st = filter (passes st) (records st)"

section \<open>Reading the effects of a run\<close>

fun remote_updates :: "Effect list \<Rightarrow> UpdateCall list" where
  "remote_updates [] = []"
| "remote_updates (RemoteUpdate u # es) = u # remote_updates es"
| "remote_updates (e # es) = remote_updates es"

fun failure_notifications :: "Effect list \<Rightarrow> string list" where
  "failure_notifications [] = []"
| "failure_notifications (ToastError m # es) = m # failure_notifications es"
| "failure_notifications (e # es) = failure_notifications es"

fun success_notifications :: "Effect list \<Rightarrow> string list" where
  "success_notifications [] = []"
| "success_notifications (ToastSuccess m # es) = m # success_notifications es"
| "success_notifications (e # es) = success_notifications es"

section \<open>The remote store\<close>

text \<open>
  Modelled from the spec: the external data store behind the client, of which the
  source holds only the calls. A table is a list of rows, a row maps column names to
  values, and \<open>count(table, filter)\<close> is the number of rows of the table that satisfy
  every condition of the filter. The store reads a date-time literal without zone
  designator as UTC.
\<close>

type_synonym Row = "string \<rightharpoonup> FieldValue"

type_synonym Store = "string \<Rightarrow> Row list"

definition literal_instant :: "StampLiteral \<Rightarrow> instant" where
  "literal_instant l =
     lit_date l * ms_per_day + int (((lit_hh l * 60 + lit_mm l) * 60 + lit_ss l) * 1000)"

definition row_eq :: "Row \<Rightarrow> string \<times> string \<Rightarrow> bool" where
  "row_eq row cv \<longleftrightarrow> row (fst cv) = Some (Text (snd cv))"

definition row_gte :: "Row \<Rightarrow> string \<times> StampLiteral \<Rightarrow> bool" where
  "row_gte row b \<longleftrightarrow>
     (case row (fst b) of Some (Stamp t) \<Rightarrow> literal_instant (snd b) \<le> t | _ \<Rightarrow> False)"

definition row_lte :: "Row \<Rightarrow> string \<times> StampLiteral \<Rightarrow> bool" where
  "row_lte row b \<longleftrightarrow>
     (case row (fst b) of Some (Stamp t) \<Rightarrow> t \<le> literal_instant (snd b) | _ \<Rightarrow> False)"

definition row_matches :: "CountQuery \<Rightarrow> Row \<Rightarrow> bool" where
  "row_matches q row \<longleftrightarrow>
     list_all (row_eq row) (eqs q) \<and> row_gte row (gte q) \<and> row_lte row (lte q)"

definition store_count :: "Store \<Rightarrow> CountQuery \<Rightarrow> CountResponse awaited" where
  "store_count db q =
     Resolved \<lparr>count = Some (length (filter (row_matches q) (db (from_table q)))),
               count_error = None\<rparr>"

section \<open>The specification's reading of the daily counts\<close>

text \<open>
  The day window of the specification: an instant lies in the window of day \<open>d\<close> when
  it is between 00:00:00 and 23:59:59 of that day, both included.
\<close>

definition in_day_window :: "int \<Rightarrow> instant \<Rightarrow> bool" where
  "in_day_window d t \<longleftrightarrow> d * ms_per_day \<le> t \<and> t \<le> d * ms_per_day + 86399000"

definition updated_in_window :: "int \<Rightarrow> Row \<Rightarrow> bool" where
  "updated_in_window d row \<longleftrightarrow>
     (case row ''updated_at'' of Some (Stamp t) \<Rightarrow> in_day_window d t | _ \<Rightarrow> False)"

definition spec_admission_count :: "Store \<Rightarrow> int \<Rightarrow> string \<Rightarrow> nat" where
  "spec_admission_count db d sp =
     length (filter (\<lambda>row. row ''specialty'' = Some (Text sp)
                         \<and> row ''patient_status'' = Some (Text ''Discharged'')
                         \<and> updated_in_window d row) (db ''patients''))"

definition spec_consultation_count :: "Store \<Rightarrow> int \<Rightarrow> string \<Rightarrow> nat" where
  "spec_consultation_count db d sp =
     length (filter (\<lambda>row. row ''consultation_specialty'' = Some (Text sp)
                         \<and> row ''status'' = Some (Text ''Completed'')
                         \<and> updated_in_window d row) (db ''consultations''))"

definition spec_stat :: "Store \<Rightarrow> int \<Rightarrow> string \<Rightarrow> DischargeStats" where
  "spec_stat db d sp =
     \<lparr>stat_specialty = sp,
      dischargedToday = \<lparr>admissions = spec_admission_count db d sp,
                         consultations = spec_consultation_count db d sp\<rparr>\<rparr>"

text \<open>
  The local calendar date of an instant, for a client whose clock is \<open>offset\<close>
  minutes ahead of UTC.
\<close>

definition local_date :: "int \<Rightarrow> instant \<Rightarrow> int" where
  "local_date offset t = (t + offset * 60000) div ms_per_day"

section \<open>The specification's reading of the name search\<close>

text \<open>
  Two characters are the same letter up to case when they are equal or one is a
  capital of A to Z and the other its small letter. A string is compared with
  another case-insensitively by comparing them character by character in this way.
  A string is ASCII when each of its bytes is below 128.
\<close>

definition same_letter :: "char \<Rightarrow> char \<Rightarrow> bool" where
  "same_letter a b \<longleftrightarrow>
     a = b
     \<or> (a, b) \<in> set (zip ''ABCDEFGHIJKLMNOPQRSTUVWXYZ'' ''abcdefghijklmnopqrstuvwxyz'')
     \<or> (b, a) \<in> set (zip ''ABCDEFGHIJKLMNOPQRSTUVWXYZ'' ''abcdefghijklmnopqrstuvwxyz'')"

definition is_ascii :: "string \<Rightarrow> bool" where
  "is_ascii s \<longleftrightarrow> list_all (\<lambda>c. (of_char c :: nat) < 128) s"

section \<open>Sample data\<close>

definition john_doe :: Patient where
  "john_doe =
    \<lparr>mrn = ''A1'', patient_name = ''John Doe'', admission_date = ''2024-02-27'',
     admission_time = ''08:30'', patient_status = ''Active'', specialty = ''Neurology''\<rparr>"

definition jane_roe :: Consultation where
  "jane_roe =
    \<lparr>c_mrn = ''C1'', c_patient_name = ''Jane Roe'', created_at = ''2024-02-28T09:00:00Z'',
     status = ''Active'', consultation_specialty = ''Hematology'',
     requesting_department = ''Emergency''\<rparr>"

text \<open>A consultation filed under the medical record number of \<open>john_doe\<close>.\<close>

definition doe_consult :: Consultation where
  "doe_consult =
    \<lparr>c_mrn = ''A1'', c_patient_name = ''John Doe'', created_at = ''2024-02-28T11:00:00Z'',
     status = ''Active'', consultation_specialty = ''Hematology'',
     requesting_department = ''Neurology''\<rparr>"

definition ward :: "ActiveRecord list \<Rightarrow> ActiveRecord option \<Rightarrow> string \<Rightarrow> string \<Rightarrow> string \<Rightarrow> State" where
  "ward rs sel d t n =
    \<lparr>records = rs, selectedRecord = sel, dischargeDate = d, dischargeTime = t,
     dischargeNote = n, searchTerm = [], selectedSpecialty = [], dischargeStats = [],
     loading = False\<rparr>"

definition no_count :: "CountQuery \<Rightarrow> CountResponse awaited" where
  "no_count q = Resolved \<lparr>count = Some 0, count_error = None\<rparr>"

text \<open>2024-03-01T10:00:00Z, with a store that accepts or refuses every update.\<close>

definition accepting_env :: Env where
  "accepting_env =
    \<lparr>now = 1709287200000, update_reply = (\<lambda>u. Resolved None), count_reply = no_count\<rparr>"

definition refusing_env :: Env where
  "refusing_env =
    \<lparr>now = 1709287200000, update_reply = (\<lambda>u. Resolved (Some ''connection lost'')),
     count_reply = no_count\<rparr>"

text \<open>
  A store with one admission, discharged on 2024-03-01 at 12:00:00Z, read at
  2024-03-01T22:00:00Z, which is 01:00 of 2024-03-02 on a clock three hours ahead
  of UTC.
\<close>

definition evening_store :: Store where
  "evening_store t =
    (if t = ''patients''
     then [[''mrn'' \<mapsto> Text ''A1'', ''specialty'' \<mapsto> Text ''Neurology'',
            ''patient_status'' \<mapsto> Text ''Discharged'',
            ''updated_at'' \<mapsto> Stamp 1709294400000]]
     else [])"

definition evening_env :: Env where
  "evening_env =
    \<lparr>now = 1709330400000, update_reply = (\<lambda>u. Resolved None),
     count_reply = store_count evening_store\<rparr>"

text \<open>
  A store client that reports two discharged Neurology admissions and answers every
  other count with null.
\<close>

definition neurology_counts :: "CountQuery \<Rightarrow> CountResponse awaited" where
  "neurology_counts q =
    Resolved \<lparr>count = (if from_table q = ''patients''
                           \<and> eqs q = [(''specialty'', ''Neurology''),
                                      (''patient_status'', ''Discharged'')]
                        then Some 2 else None),
              count_error = None\<rparr>"

definition neurology_env :: Env where
  "neurology_env =
    \<lparr>now = 1709287200000, update_reply = (\<lambda>u. Resolved None),
     count_reply = neurology_counts\<rparr>"

text \<open>
  A patient whose name is the four Greek capitals U+039F U+0394 U+039F U+03A3, and
  the search term that is the capital sigma U+03A3 alone.
\<close>

definition odos :: string where
  "odos = [CHR 0xCE, CHR 0x9F, CHR 0xCE, CHR 0x94, CHR 0xCE, CHR 0x9F, CHR 0xCE, CHR 0xA3]"

definition capital_sigma :: string where
  "capital_sigma = [CHR 0xCE, CHR 0xA3]"

definition odos_patient :: Patient where
  "odos_patient =
    \<lparr>mrn = ''A2'', patient_name = odos, admission_date = ''2024-02-27'',
     admission_time = ''09:15'', patient_status = ''Active'', specialty = ''Neurology''\<rparr>"

section \<open>Auxiliary facts\<close>

lemma startsWith_iff: "startsWith s t \<longleftrightarrow> (\<exists>suf. s = t @ suf)"
  by (induction s t rule: startsWith.induct) auto

lemma str_includes_iff: "str_includes s t \<longleftrightarrow> (\<exists>pre suf. s = pre @ t @ suf)"
proof (induction s)
  case Nil
  then show ?case by auto
next
  case (Cons x s)
  show ?case
  proof
    assume "str_includes (x # s) t"
    then consider "startsWith (x # s) t" | "str_includes s t" by auto
    then show "\<exists>pre suf. x # s = pre @ t @ suf"
    proof cases
      case 1
      then obtain suf where "x # s = t @ suf" by (auto simp: startsWith_iff)
      then have "x # s = [] @ t @ suf" by simp
      then show ?thesis by blast
    next
      case 2
      then obtain pre suf where "s = pre @ t @ suf" using Cons.IH by auto
      then have "x # s = (x # pre) @ t @ suf" by simp
      then show ?thesis by blast
    qed
  next
    assume "\<exists>pre suf. x # s = pre @ t @ suf"
    then obtain pre suf where eq: "x # s = pre @ t @ suf" by blast
    show "str_includes (x # s) t"
    proof (cases pre)
      case Nil
      with eq have "startsWith (x # s) t" by (auto simp: startsWith_iff)
      then show ?thesis by simp
    next
      case (Cons y pre')
      with eq have "s = pre' @ t @ suf" by simp
      then have "str_includes s t" using Cons.IH by blast
      then show ?thesis by simp
    qed
  qed
qed

lemma map_append_split:
  "map f s = a @ b \<Longrightarrow> \<exists>x y. s = x @ y \<and> map f x = a \<and> map f y = b"
  by (auto simp: map_eq_append_conv)

lemma includes_map_iff:
  "str_includes (map f s) (map f t) \<longleftrightarrow>
     (\<exists>pre mid suf. s = pre @ mid @ suf \<and> map f mid = map f t)"
proof
  assume "str_includes (map f s) (map f t)"
  then obtain pre' suf' where "map f s = pre' @ map f t @ suf'"
    unfolding str_includes_iff by blast
  then obtain pre rest where s: "s = pre @ rest"
    and rest: "map f rest = map f t @ suf'"
    using map_append_split by blast
  from rest obtain mid suf where "rest = mid @ suf" and "map f mid = map f t"
    using map_append_split by blast
  with s show "\<exists>pre mid suf. s = pre @ mid @ suf \<and> map f mid = map f t"
    by blast
next
  assume "\<exists>pre mid suf. s = pre @ mid @ suf \<and> map f mid = map f t"
  then obtain pre mid suf where "s = pre @ mid @ suf" and "map f mid = map f t"
    by blast
  then have "map f s = map f pre @ map f t @ map f suf"
    by simp
  then show "str_includes (map f s) (map f t)"
    unfolding str_includes_iff by blast
qed

lemma utf8_decode_ascii: "list_all (\<lambda>b. b < 128) bs \<Longrightarrow> utf8_decode bs = Some bs"
  by (induction bs) auto

lemma utf8_encode_ascii: "list_all (\<lambda>b. b < 128) bs \<Longrightarrow> utf8_encode bs = bs"
  by (induction bs) (auto simp: utf8_encode_def utf8_encode_cp_def)

lemma fold_ascii_less: "c < 128 \<Longrightarrow> fold_ascii c < 128"
  by (auto simp: fold_ascii_def)

lemma to_lower_ascii:
  "list_all (\<lambda>b. b < 128) cs \<Longrightarrow> to_lower passed cs = map fold_ascii cs"
  by (induction cs arbitrary: passed) (auto simp: lower_cp_def)

lemma toLowerCase_ascii:
  assumes "is_ascii s"
  shows "toLowerCase s = map (\<lambda>c. char_of (fold_ascii (of_char c))) s"
proof -
  let ?bs = "map of_char s :: nat list"
  have a: "list_all (\<lambda>b. b < 128) ?bs"
    using assms by (simp add: is_ascii_def list_all_iff)
  then have "code_points s = Some ?bs"
    by (simp add: code_points_def utf8_decode_ascii utf8_encode_ascii)
  moreover have "list_all (\<lambda>b. b < 128) (map fold_ascii ?bs)"
    using a by (simp add: list_all_iff fold_ascii_less)
  ultimately show ?thesis
    using a by (simp add: toLowerCase_def to_lower_ascii utf8_encode_ascii comp_def)
qed

lemma letters_zip:
  "map (\<lambda>n. (char_of n, char_of (n + 32))) [65..<91] =
   zip ''ABCDEFGHIJKLMNOPQRSTUVWXYZ'' ''abcdefghijklmnopqrstuvwxyz''"
  by (simp add: upt_rec char_of_eq_iff)

lemma in_letter_map:
  "(a, b) \<in> set (map (\<lambda>n::nat. (char_of n :: char, char_of (n + 32) :: char)) [65..<91]) \<longleftrightarrow>
     (\<exists>n::nat. 65 \<le> n \<and> n < 91 \<and> a = char_of n \<and> b = char_of (n + 32))"
  unfolding set_map set_upt image_iff atLeastLessThan_iff Bex_def prod.inject
  by blast

lemma letter_codes:
  fixes n :: nat
  assumes "65 \<le> n" and "n < 91" and "a = char_of n" and "b = char_of (n + 32)"
  shows "(of_char a :: nat) = n" and "(of_char b :: nat) = n + 32"
proof -
  from assms(2) have "n mod 256 = n" and "(n + 32) mod 256 = n + 32"
    by simp_all
  then show "(of_char a :: nat) = n" and "(of_char b :: nat) = n + 32"
    unfolding assms(3,4) of_char_of by simp_all
qed

lemma in_letters:
  "(a, b) \<in> set (zip ''ABCDEFGHIJKLMNOPQRSTUVWXYZ'' ''abcdefghijklmnopqrstuvwxyz'') \<longleftrightarrow>
     65 \<le> (of_char a :: nat) \<and> (of_char a :: nat) \<le> 90 \<and> (of_char b :: nat) = of_char a + 32"
proof -
  have "(\<exists>n::nat. 65 \<le> n \<and> n < 91 \<and> a = char_of n \<and> b = char_of (n + 32)) \<longleftrightarrow>
      65 \<le> (of_char a :: nat) \<and> (of_char a :: nat) \<le> 90 \<and> (of_char b :: nat) = of_char a + 32"
  proof
    assume "\<exists>n::nat. 65 \<le> n \<and> n < 91 \<and> a = char_of n \<and> b = char_of (n + 32)"
    then obtain n :: nat where n: "65 \<le> n" "n < 91" and a: "a = char_of n"
      and b: "b = char_of (n + 32)" by blast
    from letter_codes [OF n a b] n
    show "65 \<le> (of_char a :: nat) \<and> (of_char a :: nat) \<le> 90
      \<and> (of_char b :: nat) = of_char a + 32" by linarith
  next
    assume h: "65 \<le> (of_char a :: nat) \<and> (of_char a :: nat) \<le> 90
      \<and> (of_char b :: nat) = of_char a + 32"
    have a: "a = char_of (of_char a :: nat)"
      by (rule char_of_char [symmetric])
    have "b = char_of (of_char b :: nat)"
      by (rule char_of_char [symmetric])
    with h have b: "b = char_of (of_char a + 32 :: nat)"
      by metis
    from h have "65 \<le> (of_char a :: nat)" and "(of_char a :: nat) < 91"
      by linarith+
    with a b show "\<exists>n::nat. 65 \<le> n \<and> n < 91 \<and> a = char_of n \<and> b = char_of (n + 32)"
      by blast
  qed
  then show ?thesis
    unfolding in_letter_map [symmetric] letters_zip .
qed

lemma same_letter_iff:
  assumes "(of_char a :: nat) < 128" and "(of_char b :: nat) < 128"
  shows "char_of (fold_ascii (of_char a)) = (char_of (fold_ascii (of_char b)) :: char)
     \<longleftrightarrow> same_letter a b"
proof -
  let ?x = "of_char a :: nat" and ?y = "of_char b :: nat"
  have "char_of (fold_ascii ?x) = (char_of (fold_ascii ?y) :: char)
      \<longleftrightarrow> fold_ascii ?x = fold_ascii ?y"
    using fold_ascii_less [OF assms(1)] fold_ascii_less [OF assms(2)] by simp
  also have "\<dots> \<longleftrightarrow> ?x = ?y \<or> (65 \<le> ?x \<and> ?x \<le> 90 \<and> ?y = ?x + 32)
      \<or> (65 \<le> ?y \<and> ?y \<le> 90 \<and> ?x = ?y + 32)"
    by (auto simp: fold_ascii_def)
  also have "\<dots> \<longleftrightarrow> same_letter a b"
    by (simp only: same_letter_def in_letters of_char_eq_iff)
  finally show ?thesis .
qed

lemma map_eq_rel: "map f xs = map f ys \<longleftrightarrow> list_all2 (\<lambda>x y. f x = f y) xs ys"
  by (induction xs arbitrary: ys) (auto simp: list_all2_Cons1 map_eq_Cons_conv)

lemma is_ascii_append: "is_ascii (xs @ ys) \<longleftrightarrow> is_ascii xs \<and> is_ascii ys"
  by (simp add: is_ascii_def)

lemma lower_eq_same_letters:
  assumes "is_ascii s" and "is_ascii t"
  shows "toLowerCase s = toLowerCase t \<longleftrightarrow> list_all2 same_letter s t"
proof -
  have "toLowerCase s = toLowerCase t \<longleftrightarrow>
      list_all2 (\<lambda>a b. char_of (fold_ascii (of_char a)) = (char_of (fold_ascii (of_char b)) :: char)) s t"
    by (simp only: toLowerCase_ascii [OF assms(1)] toLowerCase_ascii [OF assms(2)] map_eq_rel)
  also have "\<dots> \<longleftrightarrow> list_all2 same_letter s t"
  proof (rule list.rel_cong [OF refl refl])
    fix a b
    assume "a \<in> set s" and "b \<in> set t"
    with assms have "(of_char a :: nat) < 128" and "(of_char b :: nat) < 128"
      by (simp_all add: is_ascii_def list_all_iff)
    then show "char_of (fold_ascii (of_char a)) = (char_of (fold_ascii (of_char b)) :: char)
        \<longleftrightarrow> same_letter a b"
      by (rule same_letter_iff)
  qed
  finally show ?thesis .
qed

lemma includes_ascii_iff:
  assumes "is_ascii s" and "is_ascii t"
  shows "str_includes (toLowerCase s) (toLowerCase t) \<longleftrightarrow>
     (\<exists>pre mid suf. s = pre @ mid @ suf \<and> list_all2 same_letter mid t)"
proof -
  let ?f = "\<lambda>c. char_of (fold_ascii (of_char c)) :: char"
  have "str_includes (toLowerCase s) (toLowerCase t) \<longleftrightarrow>
      (\<exists>pre mid suf. s = pre @ mid @ suf \<and> map ?f mid = map ?f t)"
    by (simp only: toLowerCase_ascii [OF assms(1)] toLowerCase_ascii [OF assms(2)]
        includes_map_iff)
  also have "\<dots> \<longleftrightarrow> (\<exists>pre mid suf. s = pre @ mid @ suf \<and> list_all2 same_letter mid t)"
  proof -
    have "map ?f mid = map ?f t \<longleftrightarrow> list_all2 same_letter mid t"
      if "s = pre @ mid @ suf" for pre mid suf
    proof -
      from that assms(1) have "is_ascii mid" by (simp add: is_ascii_append)
      then show ?thesis
        using lower_eq_same_letters [OF _ assms(2), of mid]
        by (simp add: toLowerCase_ascii assms(2))
    qed
    then show ?thesis by blast
  qed
  finally show ?thesis .
qed

lemma remote_updates_append:
  "remote_updates (es @ fs) = remote_updates es @ remote_updates fs"
  by (induction es rule: remote_updates.induct) auto

lemma fetch_cases:
  "(\<exists>stats. fetchDischargeStats env st = (st\<lparr>dischargeStats := stats\<rparr>, []))
   \<or> (\<exists>e. fetchDischargeStats env st =
          (st, [ConsoleError ''Error fetching discharge stats:'' e,
                ToastError ''Failed to fetch discharge statistics'']))"
  by (auto simp: fetchDischargeStats_def Let_def split: sum.splits)

lemma fetch_remote_updates: "remote_updates (snd (fetchDischargeStats env st)) = []"
  using fetch_cases [of env st] by auto

lemma fetch_success_notifications: "success_notifications (snd (fetchDischargeStats env st)) = []"
  using fetch_cases [of env st] by auto

lemma fetch_frame:
  "records (fst (fetchDischargeStats env st)) = records st"
  "selectedRecord (fst (fetchDischargeStats env st)) = selectedRecord st"
  "dischargeDate (fst (fetchDischargeStats env st)) = dischargeDate st"
  "dischargeTime (fst (fetchDischargeStats env st)) = dischargeTime st"
  "dischargeNote (fst (fetchDischargeStats env st)) = dischargeNote st"
  "searchTerm (fst (fetchDischargeStats env st)) = searchTerm st"
  "selectedSpecialty (fst (fetchDischargeStats env st)) = selectedSpecialty st"
  "loading (fst (fetchDischargeStats env st)) = loading st"
  using fetch_cases [of env st] by auto

lemma handle_invalid:
  "selectedRecord st = None \<or> dischargeDate st = [] \<or> dischargeTime st = [] \<Longrightarrow>
   handleDischarge env env' st = (st, [ToastError ''Please fill in all required fields''])"
  by (auto simp: handleDischarge_def validation_failure_def split: option.splits)

lemma handle_failed:
  assumes "selectedRecord st = Some sel" "dischargeDate st \<noteq> []" "dischargeTime st \<noteq> []"
    and "update_reply env (discharge_update env st sel) = Rejected e
         \<or> update_reply env (discharge_update env st sel) = Resolved (Some e)"
  shows "handleDischarge env env' st =
    (st, [RemoteUpdate (discharge_update env st sel), ConsoleError ''Error:'' e,
          ToastError ''Failed to discharge record''])"
  using assms by (auto simp: handleDischarge_def discharge_failure_def Let_def)

lemma handle_succeeded:
  assumes "selectedRecord st = Some sel" "dischargeDate st \<noteq> []" "dischargeTime st \<noteq> []"
    and "update_reply env (discharge_update env st sel) = Resolved None"
  shows "handleDischarge env env' st =
    (fst (fetchDischargeStats env' (after_discharge st sel)),
     [RemoteUpdate (discharge_update env st sel),
      ToastSuccess ''Record discharged successfully'']
     @ snd (fetchDischargeStats env' (after_discharge st sel)))"
  using assms by (auto simp: handleDischarge_def Let_def split: prod.splits)

lemma handle_updates:
  assumes "selectedRecord st = Some sel" "dischargeDate st \<noteq> []" "dischargeTime st \<noteq> []"
  shows "remote_updates (snd (handleDischarge env env' st)) = [discharge_update env st sel]"
proof (cases "update_reply env (discharge_update env st sel)")
  case (Resolved r)
  show ?thesis
  proof (cases r)
    case None
    with Resolved assms show ?thesis
      by (simp add: handle_succeeded fetch_remote_updates remote_updates_append)
  next
    case (Some e)
    with Resolved assms show ?thesis by (simp add: handle_failed)
  qed
next
  case (Rejected e)
  with assms show ?thesis by (simp add: handle_failed)
qed

lemma after_discharge_absent:
  "record_mrn sel \<notin> record_mrn ` set (records (after_discharge st sel))"
  by (auto simp: after_discharge_def)

lemma after_discharge_fields:
  "records (after_discharge st sel) =
     filter (\<lambda>record. record_mrn record \<noteq> record_mrn sel) (records st)"
  "selectedRecord (after_discharge st sel) = None"
  "dischargeDate (after_discharge st sel) = []"
  "dischargeTime (after_discharge st sel) = []"
  "dischargeNote (after_discharge st sel) = []"
  by (simp_all add: after_discharge_def)

lemma filteredRecords_subset: "set (filteredRecords st) \<subseteq> set (records st)"
  by (auto simp: filteredRecords_def)

lemma literal_instant_day_start: "literal_instant (day_start d) = d * ms_per_day"
  by (simp add: literal_instant_def day_start_def)

lemma literal_instant_day_end: "literal_instant (day_end d) = d * ms_per_day + 86399000"
  by (simp add: literal_instant_def day_end_def)

lemma window_bounds:
  "row_gte row (''updated_at'', day_start d) \<and> row_lte row (''updated_at'', day_end d)
     \<longleftrightarrow> updated_in_window d row"
  by (auto simp: row_gte_def row_lte_def updated_in_window_def in_day_window_def
      literal_instant_day_start literal_instant_day_end split: option.splits FieldValue.splits)

lemma patients_query_matches:
  "row_matches (patients_query d sp) row \<longleftrightarrow>
     row ''specialty'' = Some (Text sp) \<and> row ''patient_status'' = Some (Text ''Discharged'')
     \<and> updated_in_window d row"
  using window_bounds [of row d] by (auto simp: row_matches_def patients_query_def row_eq_def)

lemma consultations_query_matches:
  "row_matches (consultations_query d sp) row \<longleftrightarrow>
     row ''consultation_specialty'' = Some (Text sp) \<and> row ''status'' = Some (Text ''Completed'')
     \<and> updated_in_window d row"
  using window_bounds [of row d]
  by (auto simp: row_matches_def consultations_query_def row_eq_def)

lemma store_count_patients:
  "store_count db (patients_query d sp) =
     Resolved \<lparr>count = Some (spec_admission_count db d sp), count_error = None\<rparr>"
proof -
  have "row_matches (patients_query d sp) =
      (\<lambda>row. row ''specialty'' = Some (Text sp)
           \<and> row ''patient_status'' = Some (Text ''Discharged'') \<and> updated_in_window d row)"
    by (rule ext) (rule patients_query_matches)
  moreover have "from_table (patients_query d sp) = ''patients''"
    by (simp add: patients_query_def)
  ultimately show ?thesis
    by (simp add: store_count_def spec_admission_count_def)
qed

lemma store_count_consultations:
  "store_count db (consultations_query d sp) =
     Resolved \<lparr>count = Some (spec_consultation_count db d sp), count_error = None\<rparr>"
proof -
  have "row_matches (consultations_query d sp) =
      (\<lambda>row. row ''consultation_specialty'' = Some (Text sp)
           \<and> row ''status'' = Some (Text ''Completed'') \<and> updated_in_window d row)"
    by (rule ext) (rule consultations_query_matches)
  moreover have "from_table (consultations_query d sp) = ''consultations''"
    by (simp add: consultations_query_def)
  ultimately show ?thesis
    by (simp add: store_count_def spec_consultation_count_def)
qed

lemma specialty_stats_store:
  "count_reply env = store_count db \<Longrightarrow> specialty_stats env d sp = Inr (spec_stat db d sp)"
  by (simp add: specialty_stats_def store_count_patients store_count_consultations
      spec_stat_def or_zero_def)

lemma promise_all_Inr: "promise_all (map (\<lambda>x. Inr (f x)) xs) = Inr (map f xs)"
  by (induction xs) auto

lemma fetch_store:
  assumes "count_reply env = store_count db"
  shows "fetchDischargeStats env st =
    (st\<lparr>dischargeStats :=
          filter has_discharges (map (spec_stat db (iso_date (now env))) specialtiesList)\<rparr>, [])"
proof -
  have "specialty_stats env (iso_date (now env)) =
        (\<lambda>sp. Inr (spec_stat db (iso_date (now env)) sp))"
    by (rule ext) (rule specialty_stats_store [OF assms])
  then show ?thesis
    by (simp add: fetchDischargeStats_def Let_def promise_all_Inr)
qed

lemma evening_rows:
  "spec_admission_count evening_store d sp =
     (if sp = ''Neurology'' \<and> in_day_window d 1709294400000 then 1 else 0)"
  "spec_consultation_count evening_store d sp = 0"
  by (auto simp: spec_admission_count_def spec_consultation_count_def evening_store_def
      updated_in_window_def)






section \<open>The discharge command handler\<close>

text \<open>
  C1. When the submitted selection is an admission and the discharge date and time
  are not empty, the handler sends exactly one update, whatever the store answers:
  to \<open>patients\<close>, on the row whose \<open>mrn\<close> is that of the selected record, setting
  the status to \<open>Discharged\<close>, the discharge date, time and note to the form's values
  (the note is the empty string when nothing was typed) and \<open>updated_at\<close> to the
  clock reading.
\<close>

theorem admission_discharge_update:
  assumes "selectedRecord st = Some (Admission p)"
    and "dischargeDate st \<noteq> []" and "dischargeTime st \<noteq> []"
  shows "remote_updates (snd (handleDischarge env env' st)) =
    [\<lparr>table = ''patients'',
      patch = [(''patient_status'', Text ''Discharged''),
               (''discharge_date'', Text (dischargeDate st)),
               (''discharge_time'', Text (dischargeTime st)),
               (''discharge_note'', Text (dischargeNote st)),
               (''updated_at'', Stamp (now env))],
      eq_column = ''mrn'',
      eq_value = mrn p\<rparr>]"
  using handle_updates [OF assms, of env env'] by (simp add: patients_update_def)

theorem admission_discharge_update_witness:
  "remote_updates (snd (handleDischarge accepting_env accepting_env
      (ward [Admission john_doe] (Some (Admission john_doe))
         ''2024-03-01'' ''10:00'' ''stable''))) =
    [\<lparr>table = ''patients'',
      patch = [(''patient_status'', Text ''Discharged''),
               (''discharge_date'', Text ''2024-03-01''),
               (''discharge_time'', Text ''10:00''),
               (''discharge_note'', Text ''stable''),
               (''updated_at'', Stamp 1709287200000)],
      eq_column = ''mrn'',
      eq_value = ''A1''\<rparr>]
   \<and> remote_updates (snd (handleDischarge refusing_env accepting_env
      (ward [Admission john_doe] (Some (Admission john_doe)) ''2024-03-01'' ''10:00'' []))) =
    [\<lparr>table = ''patients'',
      patch = [(''patient_status'', Text ''Discharged''),
               (''discharge_date'', Text ''2024-03-01''),
               (''discharge_time'', Text ''10:00''),
               (''discharge_note'', Text []),
               (''updated_at'', Stamp 1709287200000)],
      eq_column = ''mrn'',
      eq_value = ''A1''\<rparr>]"
  using
    admission_discharge_update
      [of "ward [Admission john_doe] (Some (Admission john_doe))
             ''2024-03-01'' ''10:00'' ''stable''" john_doe accepting_env accepting_env]
    admission_discharge_update
      [of "ward [Admission john_doe] (Some (Admission john_doe)) ''2024-03-01'' ''10:00'' []"
          john_doe refusing_env accepting_env]
  by (simp add: ward_def john_doe_def accepting_env_def refusing_env_def)

text \<open>
  C2. When the submitted selection is a consultation and the discharge date and time
  are not empty, the handler sends exactly one update: to \<open>consultations\<close>, on the
  row whose \<open>mrn\<close> is that of the selected record, with a patch of two fields, the
  status \<open>Completed\<close> and \<open>updated_at\<close> at the clock reading. The patch has no
  \<open>discharge_note\<close>, \<open>discharge_date\<close> or \<open>discharge_time\<close>.
\<close>

theorem consultation_discharge_update:
  assumes "selectedRecord st = Some (Consult c)"
    and "dischargeDate st \<noteq> []" and "dischargeTime st \<noteq> []"
  shows "remote_updates (snd (handleDischarge env env' st)) =
    [\<lparr>table = ''consultations'',
      patch = [(''status'', Text ''Completed''), (''updated_at'', Stamp (now env))],
      eq_column = ''mrn'',
      eq_value = c_mrn c\<rparr>]
    \<and> list_all (\<lambda>u. map_of (patch u) ''discharge_note'' = None
                    \<and> map_of (patch u) ''discharge_date'' = None
                    \<and> map_of (patch u) ''discharge_time'' = None)
         (remote_updates (snd (handleDischarge env env' st)))"
  using handle_updates [OF assms, of env env'] by (simp add: consultations_update_def)

theorem consultation_discharge_update_witness:
  "remote_updates (snd (handleDischarge accepting_env accepting_env
      (ward [Consult jane_roe] (Some (Consult jane_roe)) ''2024-03-01'' ''10:00'' ''stable''))) =
    [\<lparr>table = ''consultations'',
      patch = [(''status'', Text ''Completed''), (''updated_at'', Stamp 1709287200000)],
      eq_column = ''mrn'',
      eq_value = ''C1''\<rparr>]"
  using
    consultation_discharge_update
      [of "ward [Consult jane_roe] (Some (Consult jane_roe)) ''2024-03-01'' ''10:00'' ''stable''"
          jane_roe accepting_env accepting_env]
  by (simp add: ward_def jane_roe_def accepting_env_def)

text \<open>
  C3. A submission with no selected record, or an empty discharge date, or an empty
  discharge time ends in the validation message alone: no update is sent and the
  state is returned as it was.
\<close>

theorem discharge_validation:
  assumes "selectedRecord st = None \<or> dischargeDate st = [] \<or> dischargeTime st = []"
  shows "failure_notifications (snd (handleDischarge env env' st)) =
           [''Please fill in all required fields'']
       \<and> remote_updates (snd (handleDischarge env env' st)) = []
       \<and> fst (handleDischarge env env' st) = st
       \<and> snd (handleDischarge env env' st) =
           [ToastError ''Please fill in all required fields'']"
  using handle_invalid [OF assms, of env env'] by simp

theorem discharge_validation_witness:
  "dischargeDate (ward [Admission john_doe] (Some (Admission john_doe)) [] ''10:00'' []) = []
   \<and> dischargeTime (ward [Admission john_doe] (Some (Admission john_doe)) [] ''10:00'' []) \<noteq> []
   \<and> failure_notifications (snd (handleDischarge accepting_env accepting_env
        (ward [Admission john_doe] (Some (Admission john_doe)) [] ''10:00'' []))) =
        [''Please fill in all required fields'']
   \<and> remote_updates (snd (handleDischarge accepting_env accepting_env
        (ward [Admission john_doe] (Some (Admission john_doe)) [] ''10:00'' []))) = []
   \<and> fst (handleDischarge accepting_env accepting_env
        (ward [Admission john_doe] (Some (Admission john_doe)) [] ''10:00'' [])) =
      ward [Admission john_doe] (Some (Admission john_doe)) [] ''10:00'' []"
  using
    discharge_validation
      [of "ward [Admission john_doe] (Some (Admission john_doe)) [] ''10:00'' []"
          accepting_env accepting_env]
  by (simp add: ward_def)

text \<open>
  C4. When the update succeeds, the run emits the success notification once, no
  record of the local list (nor of its filtered view) has the selected record's
  medical record number, the selection and the three form fields are cleared, and
  the run continues as \<open>fetchDischargeStats\<close> from that state: its state and effects
  are those of the statistics run.
\<close>

theorem discharge_success:
  assumes "selectedRecord st = Some sel"
    and "dischargeDate st \<noteq> []" and "dischargeTime st \<noteq> []"
    and "update_reply env (discharge_update env st sel) = Resolved None"
  shows "success_notifications (snd (handleDischarge env env' st)) =
           [''Record discharged successfully'']
       \<and> record_mrn sel \<notin> record_mrn ` set (records (fst (handleDischarge env env' st)))
       \<and> record_mrn sel \<notin> record_mrn ` set (filteredRecords (fst (handleDischarge env env' st)))
       \<and> selectedRecord (fst (handleDischarge env env' st)) = None
       \<and> dischargeDate (fst (handleDischarge env env' st)) = []
       \<and> dischargeTime (fst (handleDischarge env env' st)) = []
       \<and> dischargeNote (fst (handleDischarge env env' st)) = []
       \<and> handleDischarge env env' st =
           (fst (fetchDischargeStats env' (after_discharge st sel)),
            [RemoteUpdate (discharge_update env st sel),
             ToastSuccess ''Record discharged successfully'']
            @ snd (fetchDischargeStats env' (after_discharge st sel)))"
proof -
  let ?st' = "fst (handleDischarge env env' st)"
  note run = handle_succeeded [OF assms, of env']
  have absent: "record_mrn sel \<notin> record_mrn ` set (records ?st')"
    using after_discharge_absent [of sel st] by (simp add: run fetch_frame)
  moreover have "record_mrn sel \<notin> record_mrn ` set (filteredRecords ?st')"
    using absent filteredRecords_subset [of ?st'] by blast
  moreover have "success_notifications (snd (handleDischarge env env' st)) =
      [''Record discharged successfully'']"
    by (simp add: run fetch_success_notifications)
  ultimately show ?thesis
    by (simp add: run fetch_frame after_discharge_fields)
qed

theorem discharge_success_witness:
  "success_notifications (snd (handleDischarge accepting_env neurology_env
      (ward [Admission john_doe, Consult jane_roe] (Some (Admission john_doe))
         ''2024-03-01'' ''10:00'' ''stable''))) = [''Record discharged successfully'']
   \<and> record_mrn (Admission john_doe) \<notin>
       record_mrn ` set (records (fst (handleDischarge accepting_env neurology_env
      (ward [Admission john_doe, Consult jane_roe] (Some (Admission john_doe))
         ''2024-03-01'' ''10:00'' ''stable''))))
   \<and> selectedRecord (fst (handleDischarge accepting_env neurology_env
      (ward [Admission john_doe, Consult jane_roe] (Some (Admission john_doe))
         ''2024-03-01'' ''10:00'' ''stable''))) = None
   \<and> dischargeDate (fst (handleDischarge accepting_env neurology_env
      (ward [Admission john_doe, Consult jane_roe] (Some (Admission john_doe))
         ''2024-03-01'' ''10:00'' ''stable''))) = []"
proof -
  let ?st = "ward [Admission john_doe, Consult jane_roe] (Some (Admission john_doe))
         ''2024-03-01'' ''10:00'' ''stable''"
  have "selectedRecord ?st = Some (Admission john_doe)"
    and "dischargeDate ?st \<noteq> []" and "dischargeTime ?st \<noteq> []"
    and "update_reply accepting_env (discharge_update accepting_env ?st (Admission john_doe)) =
         Resolved None"
    by (simp_all add: ward_def accepting_env_def)
  from discharge_success [OF this, of neurology_env] show ?thesis
    by blast
qed

text \<open>
  C5, amended. When the update fails (the store answers with an error, or the call
  is rejected), the run sends the update, writes the cause to the console, emits the
  failure notification with the fixed message \<open>Failed to discharge record\<close>, and
  returns the state as it was: the list, the selection and the form fields are
  untouched. The cause is in the console line only.
\<close>

theorem discharge_failure_keeps_state:
  assumes "selectedRecord st = Some sel"
    and "dischargeDate st \<noteq> []" and "dischargeTime st \<noteq> []"
    and "update_reply env (discharge_update env st sel) = Rejected e
         \<or> update_reply env (discharge_update env st sel) = Resolved (Some e)"
  shows "handleDischarge env env' st =
           (st, [RemoteUpdate (discharge_update env st sel), ConsoleError ''Error:'' e,
                 ToastError ''Failed to discharge record''])"
  using handle_failed [OF assms, of env'] .

theorem discharge_failure_keeps_state_witness:
  "handleDischarge refusing_env accepting_env
     (ward [Admission john_doe] (Some (Admission john_doe)) ''2024-03-01'' ''10:00'' ''stable'') =
   (ward [Admission john_doe] (Some (Admission john_doe)) ''2024-03-01'' ''10:00'' ''stable'',
    [RemoteUpdate
       (discharge_update refusing_env
          (ward [Admission john_doe] (Some (Admission john_doe))
             ''2024-03-01'' ''10:00'' ''stable'')
          (Admission john_doe)),
     ConsoleError ''Error:'' ''connection lost'',
     ToastError ''Failed to discharge record''])"
  using
    discharge_failure_keeps_state
      [of "ward [Admission john_doe] (Some (Admission john_doe))
             ''2024-03-01'' ''10:00'' ''stable''"
          "Admission john_doe" refusing_env "''connection lost''" accepting_env]
  by (simp add: ward_def refusing_env_def)

text \<open>
  C5 as written does not hold: when the store refuses the update with the cause
  \<open>connection lost\<close>, the only failure notification is
  \<open>Failed to discharge record\<close>, in which the cause does not occur.
\<close>

theorem failure_toast_without_cause:
  "update_reply refusing_env
     (discharge_update refusing_env
        (ward [Admission john_doe] (Some (Admission john_doe)) ''2024-03-01'' ''10:00'' ''stable'')
        (Admission john_doe)) = Resolved (Some ''connection lost'')
   \<and> failure_notifications (snd (handleDischarge refusing_env accepting_env
        (ward [Admission john_doe] (Some (Admission john_doe)) ''2024-03-01'' ''10:00'' ''stable'')))
      = [''Failed to discharge record'']
   \<and> \<not> str_includes ''Failed to discharge record'' ''connection lost''"
  by (simp add: handleDischarge_def discharge_failure_def ward_def refusing_env_def Let_def)

text \<open>
  C9, amended. A submission with no selected record ends in the validation message
  and sends nothing. A successful discharge clears the selection, so submitting
  again from the state it leaves ends in the validation message and sends nothing.
\<close>

theorem absent_selection_rejected:
  "(selectedRecord st = None \<longrightarrow>
      handleDischarge env env' st = (st, [ToastError ''Please fill in all required fields'']))
   \<and> (selectedRecord st = Some sel \<and> dischargeDate st \<noteq> [] \<and> dischargeTime st \<noteq> []
        \<and> update_reply env (discharge_update env st sel) = Resolved None \<longrightarrow>
      handleDischarge env2 env2' (fst (handleDischarge env env' st)) =
        (fst (handleDischarge env env' st), [ToastError ''Please fill in all required fields'']))"
proof (intro conjI impI)
  assume "selectedRecord st = None"
  then show "handleDischarge env env' st = (st, [ToastError ''Please fill in all required fields''])"
    by (simp add: handle_invalid)
next
  assume a: "selectedRecord st = Some sel \<and> dischargeDate st \<noteq> [] \<and> dischargeTime st \<noteq> []
        \<and> update_reply env (discharge_update env st sel) = Resolved None"
  then have "selectedRecord (fst (handleDischarge env env' st)) = None"
    by (simp add: handle_succeeded fetch_frame after_discharge_fields)
  then show "handleDischarge env2 env2' (fst (handleDischarge env env' st)) =
        (fst (handleDischarge env env' st), [ToastError ''Please fill in all required fields''])"
    by (simp add: handle_invalid)
qed

theorem absent_selection_rejected_witness:
  "handleDischarge accepting_env accepting_env
     (ward [Admission john_doe] None ''2024-03-01'' ''10:00'' []) =
     (ward [Admission john_doe] None ''2024-03-01'' ''10:00'' [],
      [ToastError ''Please fill in all required fields''])
   \<and> snd (handleDischarge accepting_env accepting_env
       (fst (handleDischarge accepting_env accepting_env
          (ward [Admission john_doe] (Some (Admission john_doe))
             ''2024-03-01'' ''10:00'' ''stable'')))) =
     [ToastError ''Please fill in all required fields'']"
  using
    absent_selection_rejected
      [of "ward [Admission john_doe] None ''2024-03-01'' ''10:00'' []"
          accepting_env accepting_env]
    absent_selection_rejected
      [of "ward [Admission john_doe] (Some (Admission john_doe))
             ''2024-03-01'' ''10:00'' ''stable''"
          accepting_env accepting_env "Admission john_doe" accepting_env accepting_env]
  by (simp add: ward_def accepting_env_def)

text \<open>
  C9 as written does not hold for a selection that is set but no longer in the
  list: the handler does not look the selection up. With an empty list and
  \<open>john_doe\<close> still selected, the update is sent and no validation message appears.
\<close>

theorem stale_selection_is_sent:
  "Admission john_doe \<notin>
     set (records (ward [] (Some (Admission john_doe)) ''2024-03-01'' ''10:00'' []))
   \<and> remote_updates (snd (handleDischarge accepting_env accepting_env
        (ward [] (Some (Admission john_doe)) ''2024-03-01'' ''10:00'' [])))
      = [patients_update accepting_env
           (ward [] (Some (Admission john_doe)) ''2024-03-01'' ''10:00'' []) john_doe]
   \<and> failure_notifications (snd (handleDischarge accepting_env accepting_env
        (ward [] (Some (Admission john_doe)) ''2024-03-01'' ''10:00'' []))) = []"
  by (simp add: handleDischarge_def ward_def accepting_env_def Let_def fetchDischargeStats_def
      specialtiesList_def specialty_stats_def no_count_def or_zero_def has_discharges_def
      split: prod.splits)

text \<open>
  C10. After a successful discharge the local list is the old list without every
  record whose medical record number is that of the selected record, whichever its
  kind, while the one update sent is the one for the selected record.
\<close>

theorem discharge_removes_every_record_of_mrn:
  assumes "selectedRecord st = Some sel"
    and "dischargeDate st \<noteq> []" and "dischargeTime st \<noteq> []"
    and "update_reply env (discharge_update env st sel) = Resolved None"
  shows "records (fst (handleDischarge env env' st)) =
           filter (\<lambda>record. record_mrn record \<noteq> record_mrn sel) (records st)
       \<and> (\<forall>record \<in> set (records st). record_mrn record = record_mrn sel \<longrightarrow>
             record \<notin> set (records (fst (handleDischarge env env' st))))
       \<and> remote_updates (snd (handleDischarge env env' st)) = [discharge_update env st sel]"
  using assms
  by (simp add: handle_succeeded fetch_frame after_discharge_fields fetch_remote_updates
      remote_updates_append)

theorem discharge_removes_every_record_of_mrn_witness:
  "records (fst (handleDischarge accepting_env accepting_env
      (ward [Admission john_doe, Consult doe_consult, Consult jane_roe]
         (Some (Admission john_doe)) ''2024-03-01'' ''10:00'' ''stable''))) = [Consult jane_roe]
   \<and> map table (remote_updates (snd (handleDischarge accepting_env accepting_env
      (ward [Admission john_doe, Consult doe_consult, Consult jane_roe]
         (Some (Admission john_doe)) ''2024-03-01'' ''10:00'' ''stable'')))) = [''patients'']"
  using
    discharge_removes_every_record_of_mrn
      [of "ward [Admission john_doe, Consult doe_consult, Consult jane_roe]
             (Some (Admission john_doe)) ''2024-03-01'' ''10:00'' ''stable''"
          "Admission john_doe" accepting_env accepting_env]
  by (simp add: ward_def accepting_env_def john_doe_def doe_consult_def jane_roe_def
      patients_update_def)

section \<open>The daily discharge statistics\<close>

text \<open>
  C6, amended. Run against a store, the statistics callback gives, for every
  specialty, the number of \<open>patients\<close> rows with that specialty, status
  \<open>Discharged\<close> and \<open>updated_at\<close> from 00:00:00 to 23:59:59 of the UTC calendar date
  of the clock reading, and the number of \<open>consultations\<close> rows with that
  consultation specialty, status \<open>Completed\<close> and \<open>updated_at\<close> in the same window;
  the run stores these results, for the specialties of the fixed list.
\<close>

theorem daily_counts_of_utc_date:
  "specialty_stats \<lparr>now = t, update_reply = u, count_reply = store_count db\<rparr> (iso_date t) sp =
     Inr \<lparr>stat_specialty = sp,
          dischargedToday =
            \<lparr>admissions = spec_admission_count db (iso_date t) sp,
             consultations = spec_consultation_count db (iso_date t) sp\<rparr>\<rparr>
   \<and> fetchDischargeStats \<lparr>now = t, update_reply = u, count_reply = store_count db\<rparr> st =
       (st\<lparr>dischargeStats :=
             filter has_discharges (map (spec_stat db (iso_date t)) specialtiesList)\<rparr>, [])"
  using
    specialty_stats_store
      [of "\<lparr>now = t, update_reply = u, count_reply = store_count db\<rparr>" db "iso_date t" sp]
    fetch_store [of "\<lparr>now = t, update_reply = u, count_reply = store_count db\<rparr>" db st]
  by (simp add: spec_stat_def)

text \<open>
  C6 as written does not hold: the date is the UTC date, not the local one. At
  2024-03-01T22:00:00Z a client three hours ahead of UTC is on 2024-03-02 (day
  19784), while the run counts for 2024-03-01 (day 19783): it reports one Neurology
  admission, discharged at 12:00:00Z on 2024-03-01, where the window of the local
  date holds none.
\<close>

theorem daily_counts_not_of_local_date:
  "dischargeStats (fst (fetchDischargeStats evening_env (ward [] None [] [] []))) =
     [\<lparr>stat_specialty = ''Neurology'',
       dischargedToday = \<lparr>admissions = 1, consultations = 0\<rparr>\<rparr>]
   \<and> iso_date (now evening_env) = 19783
   \<and> local_date 180 (now evening_env) = 19784
   \<and> spec_admission_count evening_store (local_date 180 (now evening_env)) ''Neurology'' = 0"
proof -
  have cr: "count_reply evening_env = store_count evening_store"
    by (simp add: evening_env_def)
  have d: "iso_date (now evening_env) = 19783"
    by (simp add: evening_env_def iso_date_def ms_per_day_def)
  have l: "local_date 180 (now evening_env) = 19784"
    by (simp add: evening_env_def local_date_def ms_per_day_def)
  have "dischargeStats (fst (fetchDischargeStats evening_env (ward [] None [] [] []))) =
     [\<lparr>stat_specialty = ''Neurology'',
       dischargedToday = \<lparr>admissions = 1, consultations = 0\<rparr>\<rparr>]"
    unfolding fetch_store [OF cr] d
    by (simp add: specialtiesList_def spec_stat_def evening_rows has_discharges_def
        in_day_window_def ms_per_day_def)
  moreover have "spec_admission_count evening_store 19784 ''Neurology'' = 0"
    by (simp add: evening_rows in_day_window_def ms_per_day_def)
  ultimately show ?thesis using d l by simp
qed



section \<open>The search and specialty filter\<close>

lemma code_points_odos: "code_points odos = Some [0x039F, 0x0394, 0x039F, 0x03A3]"
proof -
  have "map of_char odos = [0xCE, 0x9F, 0xCE, 0x94, 0xCE, 0x9F, 0xCE, 0xA3 :: nat]"
    by (simp add: odos_def)
  moreover have "utf8_decode [0xCE, 0x9F, 0xCE, 0x94, 0xCE, 0x9F, 0xCE, 0xA3] =
      Some [0x039F, 0x0394, 0x039F, 0x03A3]"
    by (simp add: is_continuation_def)
  moreover have "utf8_encode [0x039F, 0x0394, 0x039F, 0x03A3] =
      [0xCE, 0x9F, 0xCE, 0x94, 0xCE, 0x9F, 0xCE, 0xA3]"
    by (simp add: utf8_encode_def utf8_encode_cp_def)
  ultimately show ?thesis
    by (simp add: code_points_def del: utf8_decode.simps)
qed

lemma to_lower_odos:
  "to_lower [] [0x039F, 0x0394, 0x039F, 0x03A3] = [0x03BF, 0x03B4, 0x03BF, 0x03C2]"
proof -
  have "lower_cp 0x039F = [0x03BF]" and "lower_cp 0x0394 = [0x03B4]"
    by (simp_all add: lower_cp_def lower_runs_def)
  moreover have "followed_by_cased [0x039F, 0x0394, 0x039F]"
    by (simp add: in_ranges_def case_ignorable_ranges_def cased_ranges_def)
  ultimately show ?thesis
    by (simp del: followed_by_cased.simps(2))
qed

lemma toLowerCase_odos:
  "toLowerCase odos =
     [CHR 0xCE, CHR 0xBF, CHR 0xCE, CHR 0xB4, CHR 0xCE, CHR 0xBF, CHR 0xCF, CHR 0x82]"
  by (simp add: toLowerCase_def code_points_odos to_lower_odos utf8_encode_def
      utf8_encode_cp_def char_of_eq_iff del: to_lower.simps)

lemma toLowerCase_capital_sigma: "toLowerCase capital_sigma = [CHR 0xCF, CHR 0x83]"
proof -
  have "map of_char capital_sigma = [0xCE, 0xA3 :: nat]"
    by (simp add: capital_sigma_def)
  moreover have "utf8_decode [0xCE, 0xA3] = Some [0x03A3]"
    by (simp add: is_continuation_def)
  moreover have "utf8_encode [0x03A3] = [0xCE, 0xA3]"
    by (simp add: utf8_encode_def utf8_encode_cp_def)
  ultimately have "code_points capital_sigma = Some [0x03A3]"
    by (simp add: code_points_def del: utf8_decode.simps)
  then show ?thesis
    by (simp add: toLowerCase_def utf8_encode_def utf8_encode_cp_def char_of_eq_iff)
qed

lemma matchesSpecialty_iff:
  "matchesSpecialty sel record \<longleftrightarrow>
     sel = []
     \<or> (case record of Admission p \<Rightarrow> specialty p | Consult c \<Rightarrow> consultation_specialty c) = sel"
  by (cases "record") simp_all

lemma matchesName_cong:
  "toLowerCase term1 = toLowerCase term2 \<Longrightarrow> matchesName term1 = matchesName term2"
  by (rule ext) (simp add: matchesName_def)

text \<open>
  C8, amended. A record of the list is in the filtered list exactly when the
  lower-cased patient name contains the lower-cased search term, or the medical
  record number contains the search term as it is, and moreover the specialty
  filter is empty or equals the record's specialty (consultation specialty for a
  consultation). When the patient name and the search term are ASCII, the first
  condition is that the name contains the term compared case-insensitively, and two
  ASCII search terms that differ only in letter case select the same records by
  name.
\<close>

theorem search_filter_predicate:
  "(record \<in> set (filteredRecords st) \<longleftrightarrow>
      record \<in> set (records st)
      \<and> (str_includes (toLowerCase (record_patient_name record)) (toLowerCase (searchTerm st))
         \<or> (\<exists>pre suf. record_mrn record = pre @ searchTerm st @ suf))
      \<and> (selectedSpecialty st = []
         \<or> (case record of Admission p \<Rightarrow> specialty p | Consult c \<Rightarrow> consultation_specialty c)
             = selectedSpecialty st))
   \<and> (is_ascii (record_patient_name record) \<and> is_ascii (searchTerm st) \<longrightarrow>
       (record \<in> set (filteredRecords st) \<longleftrightarrow>
          record \<in> set (records st)
          \<and> ((\<exists>pre mid suf. record_patient_name record = pre @ mid @ suf
                            \<and> list_all2 same_letter mid (searchTerm st))
             \<or> (\<exists>pre suf. record_mrn record = pre @ searchTerm st @ suf))
          \<and> (selectedSpecialty st = []
             \<or> (case record of Admission p \<Rightarrow> specialty p
                 | Consult c \<Rightarrow> consultation_specialty c)
                 = selectedSpecialty st)))
   \<and> (is_ascii term1 \<and> is_ascii term2 \<and> list_all2 same_letter term1 term2 \<longrightarrow>
        filter (matchesName term1) rs = filter (matchesName term2) rs)"
proof (intro conjI impI)
  have by_mrn: "str_includes (record_mrn record) (searchTerm st) \<longleftrightarrow>
      (\<exists>pre suf. record_mrn record = pre @ searchTerm st @ suf)"
    by (rule str_includes_iff)
  have general: "record \<in> set (filteredRecords st) \<longleftrightarrow>
      record \<in> set (records st)
      \<and> (str_includes (toLowerCase (record_patient_name record)) (toLowerCase (searchTerm st))
         \<or> (\<exists>pre suf. record_mrn record = pre @ searchTerm st @ suf))
      \<and> (selectedSpecialty st = []
         \<or> (case record of Admission p \<Rightarrow> specialty p | Consult c \<Rightarrow> consultation_specialty c)
             = selectedSpecialty st)"
    unfolding filteredRecords_def set_filter mem_Collect_eq passes_def matchesSearch_def
      matchesName_def by_mrn matchesSpecialty_iff ..
  show "record \<in> set (filteredRecords st) \<longleftrightarrow>
      record \<in> set (records st)
      \<and> (str_includes (toLowerCase (record_patient_name record)) (toLowerCase (searchTerm st))
         \<or> (\<exists>pre suf. record_mrn record = pre @ searchTerm st @ suf))
      \<and> (selectedSpecialty st = []
         \<or> (case record of Admission p \<Rightarrow> specialty p | Consult c \<Rightarrow> consultation_specialty c)
             = selectedSpecialty st)"
    by (rule general)
  show "record \<in> set (filteredRecords st) \<longleftrightarrow>
          record \<in> set (records st)
          \<and> ((\<exists>pre mid suf. record_patient_name record = pre @ mid @ suf
                            \<and> list_all2 same_letter mid (searchTerm st))
             \<or> (\<exists>pre suf. record_mrn record = pre @ searchTerm st @ suf))
          \<and> (selectedSpecialty st = []
             \<or> (case record of Admission p \<Rightarrow> specialty p
                 | Consult c \<Rightarrow> consultation_specialty c)
                 = selectedSpecialty st)"
    if "is_ascii (record_patient_name record) \<and> is_ascii (searchTerm st)"
    unfolding general using that by (simp only: includes_ascii_iff)
  show "filter (matchesName term1) rs = filter (matchesName term2) rs"
    if "is_ascii term1 \<and> is_ascii term2 \<and> list_all2 same_letter term1 term2"
  proof -
    from that have "toLowerCase term1 = toLowerCase term2"
      by (simp add: lower_eq_same_letters)
    then have "matchesName term1 = matchesName term2"
      by (rule matchesName_cong)
    then show ?thesis by simp
  qed
qed

theorem search_filter_predicate_witness:
  "Consult jane_roe \<in> set (filteredRecords
      ((ward [Admission john_doe, Consult jane_roe] None [] [] [])\<lparr>searchTerm := ''JANE''\<rparr>))
   \<and> filter (matchesName ''Jane'') [Admission john_doe, Consult jane_roe] =
     filter (matchesName ''jane'') [Admission john_doe, Consult jane_roe]"
proof -
  let ?st = "(ward [Admission john_doe, Consult jane_roe] None [] [] [])\<lparr>searchTerm := ''JANE''\<rparr>"
  note inst = search_filter_predicate
    [of "Consult jane_roe" ?st "''Jane''" "''jane''" "[Admission john_doe, Consult jane_roe]"]
  have ascii: "is_ascii (record_patient_name (Consult jane_roe)) \<and> is_ascii (searchTerm ?st)"
    by (simp add: jane_roe_def is_ascii_def)
  have "record_patient_name (Consult jane_roe) = [] @ ''Jane'' @ '' Roe''"
    by (simp add: jane_roe_def)
  moreover have "list_all2 same_letter ''Jane'' (searchTerm ?st)"
    by (simp add: same_letter_def)
  ultimately have "\<exists>pre mid suf. record_patient_name (Consult jane_roe) = pre @ mid @ suf
      \<and> list_all2 same_letter mid (searchTerm ?st)"
    by blast
  moreover have "Consult jane_roe \<in> set (records ?st)" and "selectedSpecialty ?st = []"
    by (simp_all add: ward_def)
  ultimately have "Consult jane_roe \<in> set (filteredRecords ?st)"
    using inst ascii by blast
  moreover have "is_ascii ''Jane'' \<and> is_ascii ''jane'' \<and> list_all2 same_letter ''Jane'' ''jane''"
    by (simp add: is_ascii_def same_letter_def)
  then have "filter (matchesName ''Jane'') [Admission john_doe, Consult jane_roe] =
     filter (matchesName ''jane'') [Admission john_doe, Consult jane_roe]"
    using inst by blast
  ultimately show ?thesis by blast
qed

text \<open>
  C8 as written does not hold: lower-casing is that of the whole string, and a
  capital sigma at the end of a word becomes the final small sigma. The name of
  \<open>odos_patient\<close> contains the search term \<open>capital_sigma\<close> as it is, and no
  specialty is selected, yet the filtered list is empty: the lower-cased name ends
  in U+03C2 and the lower-cased term is U+03C3.
\<close>

theorem final_sigma_name_not_listed:
  "str_includes (record_patient_name (Admission odos_patient)) capital_sigma
   \<and> selectedSpecialty ((ward [Admission odos_patient] None [] [] [])
        \<lparr>searchTerm := capital_sigma\<rparr>) = []
   \<and> filteredRecords ((ward [Admission odos_patient] None [] [] [])
        \<lparr>searchTerm := capital_sigma\<rparr>) = []
   \<and> toLowerCase odos =
       [CHR 0xCE, CHR 0xBF, CHR 0xCE, CHR 0xB4, CHR 0xCE, CHR 0xBF, CHR 0xCF, CHR 0x82]
   \<and> toLowerCase capital_sigma = [CHR 0xCF, CHR 0x83]"
proof -
  have "str_includes odos capital_sigma"
    by (simp add: odos_def capital_sigma_def)
  moreover have "\<not> str_includes (toLowerCase odos) (toLowerCase capital_sigma)"
    unfolding toLowerCase_odos toLowerCase_capital_sigma by simp
  moreover have "\<not> str_includes ''A2'' capital_sigma"
    by (simp add: capital_sigma_def)
  ultimately show ?thesis
    by (simp add: filteredRecords_def passes_def matchesSearch_def matchesName_def ward_def
        odos_patient_def toLowerCase_odos toLowerCase_capital_sigma)
qed

end
